theory Spec2Isabelle
  imports Complex_Main "HOL-Library.Product_Lexorder"
begin

section \<open>Python values, exceptions and string helpers\<close>

text \<open>
  Python floats are modelled as exact rationals; an upper bracket bound may also be
  \<open>float('inf')\<close>.  Every \<open>raise\<close> of the source (and every exception of a Python
  builtin that the source can trigger) is an \<open>Inl\<close> value.
\<close>

datatype exn = ValueError | TypeError | IndexError | KeyError | AttributeError | OSError

definition and_then :: "exn + 'a \<Rightarrow> ('a \<Rightarrow> exn + 'b) \<Rightarrow> exn + 'b" where
  "and_then m f = (case m of Inl e \<Rightarrow> Inl e | Inr x \<Rightarrow> f x)"

text \<open>\<open>try: body except Exception as e: handler\<close>\<close>

definition try_except :: "exn + 'a \<Rightarrow> (exn \<Rightarrow> exn + 'a) \<Rightarrow> exn + 'a" where
  "try_except body handler = (case body of Inl e \<Rightarrow> handler e | Inr x \<Rightarrow> Inr x)"

datatype pyval = PNone | PStr string | PNum rat

datatype bound = Finite rat | Infinity

definition le_bound :: "rat \<Rightarrow> bound \<Rightarrow> bool" where
  "le_bound x b = (case b of Finite m \<Rightarrow> x \<le> m | Infinity \<Rightarrow> True)"

definition lt_bound :: "rat \<Rightarrow> bound \<Rightarrow> bool" where
  "lt_bound x b = (case b of Finite m \<Rightarrow> x < m | Infinity \<Rightarrow> True)"

type_synonym date = "nat \<times> nat \<times> nat"

text \<open>A row of \<open>csv.DictReader\<close>: a header name is absent (\<open>None\<close>), present with the
  value \<open>None\<close> (a short line), or present with a string.\<close>

type_synonym csv_row = "string \<Rightarrow> string option option"

text \<open>A stored file, as the two readers see it: the rows \<open>csv.DictReader\<close> yields and the
  rows \<open>ws.iter_rows(min_row=2, values_only=True)\<close> yields, or the exception the reader
  raises on it.\<close>

record stored_file =
  csv_rows :: "exn + csv_row list"
  xlsx_rows :: "exn + pyval list list"

text \<open>What the program reads from outside the database: the clock (\<open>CURDATE()\<close>), the file
  system, whether openpyxl was importable, and the Python builtins \<open>float\<close> (on a string)
  and \<open>str\<close> (on a number).\<close>

record env =
  today :: date
  files :: "string \<Rightarrow> stored_file option"
  EXCEL_AVAILABLE :: bool
  float_str :: "string \<Rightarrow> rat option"
  str_num :: "rat \<Rightarrow> string"

definition row_get :: "csv_row \<Rightarrow> string \<Rightarrow> pyval \<Rightarrow> pyval" where
  "row_get row k d = (case row k of None \<Rightarrow> d | Some None \<Rightarrow> PNone | Some (Some s) \<Rightarrow> PStr s)"

definition py_float :: "env \<Rightarrow> pyval \<Rightarrow> exn + rat" where
  "py_float env v = (case v of
      PNone \<Rightarrow> Inl TypeError
    | PNum r \<Rightarrow> Inr r
    | PStr s \<Rightarrow> (case float_str env s of None \<Rightarrow> Inl ValueError | Some r \<Rightarrow> Inr r))"

definition as_str :: "pyval \<Rightarrow> exn + string" where
  "as_str v = (case v of PStr s \<Rightarrow> Inr s | _ \<Rightarrow> Inl TypeError)"

text \<open>A string method called on the value: \<open>None.replace\<close> is an AttributeError.\<close>

definition as_str_attr :: "pyval \<Rightarrow> exn + string" where
  "as_str_attr v = (case v of PStr s \<Rightarrow> Inr s | _ \<Rightarrow> Inl AttributeError)"

definition truthy :: "pyval \<Rightarrow> bool" where
  "truthy v = (case v of PNone \<Rightarrow> False | PStr s \<Rightarrow> s \<noteq> [] | PNum r \<Rightarrow> r \<noteq> 0)"

definition py_or :: "pyval \<Rightarrow> pyval \<Rightarrow> pyval" where
  "py_or a b = (if truthy a then a else b)"

definition py_str :: "env \<Rightarrow> pyval \<Rightarrow> string" where
  "py_str env v = (case v of PNone \<Rightarrow> ''None'' | PStr s \<Rightarrow> s | PNum r \<Rightarrow> str_num env r)"

definition index :: "'a list \<Rightarrow> nat \<Rightarrow> exn + 'a" where
  "index xs i = (if i < length xs then Inr (xs ! i) else Inl IndexError)"

definition endswith :: "string \<Rightarrow> string \<Rightarrow> bool" where
  "endswith s suf = (length suf \<le> length s \<and> drop (length s - length suf) s = suf)"

fun contains :: "string \<Rightarrow> string \<Rightarrow> bool" where
  "contains sub [] = (sub = [])"
| "contains sub (c # cs) = (take (length sub) (c # cs) = sub \<or> contains sub cs)"

fun split_on :: "char \<Rightarrow> string \<Rightarrow> string list" where
  "split_on d [] = [[]]"
| "split_on d (c # cs) =
     (if c = d then [] # split_on d cs
      else (case split_on d cs of [] \<Rightarrow> [[c]] | w # ws \<Rightarrow> (c # w) # ws))"

definition unpack2 :: "'a list \<Rightarrow> exn + ('a \<times> 'a)" where
  "unpack2 xs = (case xs of [a, b] \<Rightarrow> Inr (a, b) | _ \<Rightarrow> Inl ValueError)"

definition is_space :: "char \<Rightarrow> bool" where
  "is_space c = (let n = (of_char c :: nat) in (9 \<le> n \<and> n \<le> 13) \<or> (28 \<le> n \<and> n \<le> 32))"

definition strip :: "string \<Rightarrow> string" where
  "strip s = rev (dropWhile is_space (rev (dropWhile is_space s)))"

definition remove_percent :: "string \<Rightarrow> string" where
  "remove_percent s = filter (\<lambda>c. c \<noteq> CHR ''%'') s"

definition upper :: "string \<Rightarrow> string" where
  "upper s = map (\<lambda>c. let n = (of_char c :: nat) in
                        if 97 \<le> n \<and> n \<le> 122 then char_of (n - 32) else c) s"

text \<open>\<open>for row in rows: ...\<close> where an iteration appends one bracket, appends nothing, or
  raises.\<close>

fun collect :: "('r \<Rightarrow> exn + 'b option) \<Rightarrow> 'r list \<Rightarrow> 'b list \<Rightarrow> exn + 'b list" where
  "collect f [] bs = Inr bs"
| "collect f (row # rows) bs =
     (case f row of
        Inl e \<Rightarrow> Inl e
      | Inr None \<Rightarrow> collect f rows bs
      | Inr (Some b) \<Rightarrow> collect f rows (bs @ [b]))"

definition open_csv :: "env \<Rightarrow> string \<Rightarrow> exn + csv_row list" where
  "open_csv env file_path =
     (case files env file_path of None \<Rightarrow> Inl OSError | Some f \<Rightarrow> csv_rows f)"

definition load_workbook :: "env \<Rightarrow> string \<Rightarrow> exn + pyval list list" where
  "load_workbook env file_path =
     (case files env file_path of None \<Rightarrow> Inl OSError | Some f \<Rightarrow> xlsx_rows f)"

section \<open>compliance\_parser.py\<close>

record 'b parsed =
  brackets :: "'b list"
  max_contribution :: "rat option"
  ptype :: "string option"

record sss_bracket =
  sss_min :: rat
  sss_max :: rat
  sss_employee_share :: rat
  sss_employer_share :: rat

record ph_bracket =
  ph_min :: rat
  ph_max :: bound
  ph_employee_rate :: "rat option"
  ph_employee_fixed :: "rat option"
  ph_employer_rate :: "rat option"
  ph_employer_fixed :: "rat option"

record pi_bracket =
  pi_min :: rat
  pi_max :: bound
  pi_employee_rate :: "rat option"

record tax_bracket =
  tax_from :: rat
  tax_to :: bound
  tax_base_tax :: rat
  tax_rate :: rat

text \<open>\<open>float(max_sal.strip()) if max_sal.strip() != '+' else float('inf')\<close>\<close>

definition parse_max :: "env \<Rightarrow> string \<Rightarrow> exn + bound" where
  "parse_max env max_sal =
     (if strip max_sal \<noteq> ''+''
      then and_then (py_float env (PStr (strip max_sal))) (\<lambda>m. Inr (Finite m))
      else Inr Infinity)"

text \<open>The percentage-or-fixed split of a share column in \<open>parse_philhealth_file\<close>:
  the pair (rate, fixed).\<close>

definition rate_or_fixed :: "env \<Rightarrow> pyval \<Rightarrow> exn + (rat option \<times> rat option)" where
  "rate_or_fixed env share =
     and_then (as_str share) (\<lambda>s.
       if CHR ''%'' \<in> set s
       then and_then (py_float env (PStr (remove_percent s))) (\<lambda>r. Inr (Some (r / 100), None))
       else and_then (py_float env (PStr s)) (\<lambda>x. Inr (None, Some x)))"

subsection \<open>parse\_sss\_file\<close>

definition sss_csv_row :: "env \<Rightarrow> csv_row \<Rightarrow> exn + sss_bracket option" where
  "sss_csv_row env row =
     and_then (as_str (row_get row ''Salary Range'' (PStr ''''))) (\<lambda>salary_range.
       if CHR ''-'' \<in> set salary_range then
         and_then (unpack2 (split_on CHR ''-'' salary_range)) (\<lambda>(min_sal, max_sal).
         and_then (py_float env (PStr (strip min_sal))) (\<lambda>mn.
         and_then (py_float env (PStr (strip max_sal))) (\<lambda>mx.
         and_then (py_float env (row_get row ''Employee Share'' (PNum 0))) (\<lambda>ee.
         and_then (py_float env (row_get row ''Employer Share'' (PNum 0))) (\<lambda>er.
           Inr (Some \<lparr>sss_min = mn, sss_max = mx,
                      sss_employee_share = ee, sss_employer_share = er\<rparr>))))))
       else Inr None)"

definition sss_xlsx_row :: "env \<Rightarrow> pyval list \<Rightarrow> exn + sss_bracket option" where
  "sss_xlsx_row env row =
     and_then (index row 0) (\<lambda>c0.
       if truthy c0 then
         (let salary_range = py_str env c0 in
          if CHR ''-'' \<in> set salary_range then
            and_then (unpack2 (split_on CHR ''-'' salary_range)) (\<lambda>(min_sal, max_sal).
            and_then (py_float env (PStr (strip min_sal))) (\<lambda>mn.
            and_then (py_float env (PStr (strip max_sal))) (\<lambda>mx.
            and_then (index row 1) (\<lambda>c1.
            and_then (py_float env (py_or c1 (PNum 0))) (\<lambda>ee.
            and_then (index row 2) (\<lambda>c2.
            and_then (py_float env (py_or c2 (PNum 0))) (\<lambda>er.
              Inr (Some \<lparr>sss_min = mn, sss_max = mx,
                         sss_employee_share = ee, sss_employer_share = er\<rparr>))))))))
          else Inr None)
       else Inr None)"

text \<open>The body of the \<open>try\<close> block: the bracket list it has built when it ends, or the
  exception that leaves it.\<close>

definition sss_try_body :: "env \<Rightarrow> string \<Rightarrow> exn + sss_bracket list" where
  "sss_try_body env file_path =
     (if endswith file_path ''.csv'' then
        and_then (open_csv env file_path) (\<lambda>rows. collect (sss_csv_row env) rows [])
      else if (endswith file_path ''.xlsx'' \<or> endswith file_path ''.xls'')
              \<and> EXCEL_AVAILABLE env then
        and_then (load_workbook env file_path) (\<lambda>rows. collect (sss_xlsx_row env) rows [])
      else Inr [])"

definition parse_sss_file :: "env \<Rightarrow> string \<Rightarrow> exn + sss_bracket parsed" where
  "parse_sss_file env file_path =
     try_except
       (and_then (sss_try_body env file_path)
          (\<lambda>bs. Inr \<lparr>brackets = bs, max_contribution = None, ptype = Some ''SSS''\<rparr>))
       (\<lambda>e. Inr \<lparr>brackets = [], max_contribution = None, ptype = None\<rparr>)"

subsection \<open>parse\_philhealth\_file\<close>

definition philhealth_csv_row :: "env \<Rightarrow> csv_row \<Rightarrow> exn + ph_bracket option" where
  "philhealth_csv_row env row =
     (let salary_range = row_get row ''Monthly Salary'' (PStr '''');
          employee_share = row_get row ''Employee Share'' (PStr ''0'');
          employer_share = row_get row ''Employer Share'' (PStr ''0'')
      in and_then (rate_or_fixed env employee_share) (\<lambda>(emp_rate, emp_fixed).
         and_then (rate_or_fixed env employer_share) (\<lambda>(emp_rate_emp, emp_fixed_emp).
         and_then (as_str salary_range) (\<lambda>salary_range.
           if CHR ''-'' \<in> set salary_range then
             and_then (unpack2 (split_on CHR ''-'' salary_range)) (\<lambda>(min_sal, max_sal).
             and_then (py_float env (PStr (strip min_sal))) (\<lambda>mn.
             and_then (parse_max env max_sal) (\<lambda>mx.
               Inr (Some \<lparr>ph_min = mn, ph_max = mx,
                          ph_employee_rate = emp_rate, ph_employee_fixed = emp_fixed,
                          ph_employer_rate = emp_rate_emp,
                          ph_employer_fixed = emp_fixed_emp\<rparr>))))
           else Inr None))))"

text \<open>The workbook branch builds brackets without the two employer keys; no reader of the
  brackets looks at them, so they are \<open>None\<close> here.\<close>

definition philhealth_xlsx_row :: "env \<Rightarrow> pyval list \<Rightarrow> exn + ph_bracket option" where
  "philhealth_xlsx_row env row =
     and_then (index row 0) (\<lambda>c0.
       if truthy c0 then
         (let salary_range = py_str env c0 in
          if CHR ''-'' \<in> set salary_range then
            and_then (unpack2 (split_on CHR ''-'' salary_range)) (\<lambda>(min_sal, max_sal).
            and_then (py_float env (PStr (strip min_sal))) (\<lambda>mn.
            and_then (parse_max env max_sal) (\<lambda>mx.
            and_then (index row 1) (\<lambda>c1.
            and_then (if CHR ''%'' \<in> set (py_str env (py_or c1 (PStr '''')))
                      then and_then (py_float env (py_or c1 (PNum 0))) (\<lambda>r. Inr (Some (r / 100)))
                      else Inr None) (\<lambda>emp_rate.
            and_then (if CHR ''%'' \<notin> set (py_str env (py_or c1 (PStr '''')))
                      then and_then (py_float env (py_or c1 (PNum 0))) (\<lambda>x. Inr (Some x))
                      else Inr None) (\<lambda>emp_fixed.
              Inr (Some \<lparr>ph_min = mn, ph_max = mx,
                         ph_employee_rate = emp_rate, ph_employee_fixed = emp_fixed,
                         ph_employer_rate = None, ph_employer_fixed = None\<rparr>)))))))
          else Inr None)
       else Inr None)"

definition philhealth_try_body :: "env \<Rightarrow> string \<Rightarrow> exn + ph_bracket list" where
  "philhealth_try_body env file_path =
     (if endswith file_path ''.csv'' then
        and_then (open_csv env file_path) (\<lambda>rows. collect (philhealth_csv_row env) rows [])
      else if (endswith file_path ''.xlsx'' \<or> endswith file_path ''.xls'')
              \<and> EXCEL_AVAILABLE env then
        and_then (load_workbook env file_path)
          (\<lambda>rows. collect (philhealth_xlsx_row env) rows [])
      else Inr [])"

definition parse_philhealth_file :: "env \<Rightarrow> string \<Rightarrow> exn + ph_bracket parsed" where
  "parse_philhealth_file env file_path =
     try_except
       (and_then (philhealth_try_body env file_path)
          (\<lambda>bs. Inr \<lparr>brackets = bs, max_contribution = None, ptype = Some ''PHILHEALTH''\<rparr>))
       (\<lambda>e. Inr \<lparr>brackets = [], max_contribution = None, ptype = None\<rparr>)"

subsection \<open>parse\_pagibig\_file\<close>

text \<open>One iteration of the Pag-IBIG loops either sets \<open>max_contribution\<close>, appends a
  bracket, or does nothing.\<close>

datatype pi_item = PI_Max rat | PI_Bracket pi_bracket | PI_Skip

definition pagibig_csv_row :: "env \<Rightarrow> csv_row \<Rightarrow> exn + pi_item" where
  "pagibig_csv_row env row =
     and_then (as_str (row_get row ''Monthly Salary'' (PStr ''''))) (\<lambda>salary_range.
       if contains ''Maximum'' salary_range \<or> contains ''Max'' salary_range then
         and_then (py_float env (row_get row ''Employee Share'' (PNum 100))) (\<lambda>m. Inr (PI_Max m))
       else
         and_then (as_str (row_get row ''Employee Share'' (PStr ''0''))) (\<lambda>employee_share.
         and_then (if CHR ''%'' \<in> set employee_share
                   then and_then (py_float env (PStr (remove_percent employee_share)))
                          (\<lambda>r. Inr (Some (r / 100)))
                   else Inr None) (\<lambda>emp_rate.
           if CHR ''-'' \<in> set salary_range then
             and_then (unpack2 (split_on CHR ''-'' salary_range)) (\<lambda>(min_sal, max_sal).
             and_then (py_float env (PStr (strip min_sal))) (\<lambda>mn.
             and_then (parse_max env max_sal) (\<lambda>mx.
               Inr (PI_Bracket \<lparr>pi_min = mn, pi_max = mx, pi_employee_rate = emp_rate\<rparr>))))
           else Inr PI_Skip)))"

definition pagibig_xlsx_row :: "env \<Rightarrow> pyval list \<Rightarrow> exn + pi_item" where
  "pagibig_xlsx_row env row =
     and_then (index row 0) (\<lambda>c0.
       if truthy c0 then
         (let salary_range = py_str env c0 in
          if contains ''Maximum'' salary_range \<or> contains ''Max'' salary_range then
            and_then (index row 1) (\<lambda>c1.
            and_then (py_float env (py_or c1 (PNum 100))) (\<lambda>m. Inr (PI_Max m)))
          else if CHR ''-'' \<in> set salary_range then
            and_then (unpack2 (split_on CHR ''-'' salary_range)) (\<lambda>(min_sal, max_sal).
            and_then (index row 1) (\<lambda>c1.
            (let emp_share = py_str env (py_or c1 (PStr ''0'')) in
            and_then (if CHR ''%'' \<in> set emp_share
                      then and_then (py_float env (PStr (remove_percent emp_share)))
                             (\<lambda>r. Inr (Some (r / 100)))
                      else Inr None) (\<lambda>emp_rate.
            and_then (py_float env (PStr (strip min_sal))) (\<lambda>mn.
            and_then (parse_max env max_sal) (\<lambda>mx.
              Inr (PI_Bracket \<lparr>pi_min = mn, pi_max = mx, pi_employee_rate = emp_rate\<rparr>)))))))
          else Inr PI_Skip)
       else Inr PI_Skip)"

fun pagibig_collect ::
  "('r \<Rightarrow> exn + pi_item) \<Rightarrow> 'r list \<Rightarrow> pi_bracket list \<Rightarrow> rat \<Rightarrow> exn + (pi_bracket list \<times> rat)"
where
  "pagibig_collect f [] bs max_contrib = Inr (bs, max_contrib)"
| "pagibig_collect f (row # rows) bs max_contrib =
     (case f row of
        Inl e \<Rightarrow> Inl e
      | Inr (PI_Max m) \<Rightarrow> pagibig_collect f rows bs m
      | Inr (PI_Bracket b) \<Rightarrow> pagibig_collect f rows (bs @ [b]) max_contrib
      | Inr PI_Skip \<Rightarrow> pagibig_collect f rows bs max_contrib)"

definition pagibig_try_body :: "env \<Rightarrow> string \<Rightarrow> exn + (pi_bracket list \<times> rat)" where
  "pagibig_try_body env file_path =
     (if endswith file_path ''.csv'' then
        and_then (open_csv env file_path)
          (\<lambda>rows. pagibig_collect (pagibig_csv_row env) rows [] 100)
      else if (endswith file_path ''.xlsx'' \<or> endswith file_path ''.xls'')
              \<and> EXCEL_AVAILABLE env then
        and_then (load_workbook env file_path)
          (\<lambda>rows. pagibig_collect (pagibig_xlsx_row env) rows [] 100)
      else Inr ([], 100))"

definition parse_pagibig_file :: "env \<Rightarrow> string \<Rightarrow> exn + pi_bracket parsed" where
  "parse_pagibig_file env file_path =
     try_except
       (and_then (pagibig_try_body env file_path)
          (\<lambda>(bs, m). Inr \<lparr>brackets = bs, max_contribution = Some m, ptype = Some ''PAGIBIG''\<rparr>))
       (\<lambda>e. Inr \<lparr>brackets = [], max_contribution = Some 100, ptype = None\<rparr>)"

subsection \<open>parse\_tax\_file\<close>

definition tax_csv_row :: "env \<Rightarrow> csv_row \<Rightarrow> exn + tax_bracket option" where
  "tax_csv_row env row =
     and_then (py_float env (row_get row ''Taxable Income From'' (PNum 0))) (\<lambda>fr.
     and_then (case row ''To'' of
                 None \<Rightarrow> Inr Infinity
               | Some v \<Rightarrow> and_then (py_float env (row_get row ''To'' PNone))
                             (\<lambda>t. Inr (Finite t))) (\<lambda>to.
     and_then (py_float env (row_get row ''Base Tax'' (PNum 0))) (\<lambda>base.
     and_then (as_str_attr (row_get row ''Rate Over'' (PStr ''0%''))) (\<lambda>rate_over.
     and_then (py_float env (PStr (remove_percent rate_over))) (\<lambda>r.
       Inr (Some \<lparr>tax_from = fr, tax_to = to, tax_base_tax = base, tax_rate = r / 100\<rparr>))))))"

definition tax_xlsx_row :: "env \<Rightarrow> pyval list \<Rightarrow> exn + tax_bracket option" where
  "tax_xlsx_row env row =
     and_then (index row 0) (\<lambda>c0.
       if c0 \<noteq> PNone then
         and_then (index row 3) (\<lambda>c3.
         (let rate_str = py_str env (py_or c3 (PStr ''0%'')) in
         and_then (py_float env (py_or c0 (PNum 0))) (\<lambda>fr.
         and_then (index row 1) (\<lambda>c1.
         and_then (if truthy c1 then and_then (py_float env c1) (\<lambda>t. Inr (Finite t))
                   else Inr Infinity) (\<lambda>to.
         and_then (index row 2) (\<lambda>c2.
         and_then (py_float env (py_or c2 (PNum 0))) (\<lambda>base.
         and_then (py_float env (PStr (remove_percent rate_str))) (\<lambda>r.
           Inr (Some \<lparr>tax_from = fr, tax_to = to, tax_base_tax = base,
                      tax_rate = r / 100\<rparr>)))))))))
       else Inr None)"

definition tax_try_body :: "env \<Rightarrow> string \<Rightarrow> exn + tax_bracket list" where
  "tax_try_body env file_path =
     (if endswith file_path ''.csv'' then
        and_then (open_csv env file_path) (\<lambda>rows. collect (tax_csv_row env) rows [])
      else if (endswith file_path ''.xlsx'' \<or> endswith file_path ''.xls'')
              \<and> EXCEL_AVAILABLE env then
        and_then (load_workbook env file_path) (\<lambda>rows. collect (tax_xlsx_row env) rows [])
      else Inr [])"

definition parse_tax_file :: "env \<Rightarrow> string \<Rightarrow> exn + tax_bracket parsed" where
  "parse_tax_file env file_path =
     try_except
       (and_then (tax_try_body env file_path)
          (\<lambda>bs. Inr \<lparr>brackets = bs, max_contribution = None, ptype = Some ''TAX''\<rparr>))
       (\<lambda>e. Inr \<lparr>brackets = [], max_contribution = None, ptype = None\<rparr>)"

subsection \<open>parse\_compliance\_file\<close>

datatype parsed_data =
    SSS_data "sss_bracket parsed"
  | PhilHealth_data "ph_bracket parsed"
  | PagIBIG_data "pi_bracket parsed"
  | Tax_data "tax_bracket parsed"

text \<open>\<open>os.path.exists\<close> is \<open>files env file_path \<noteq> None\<close>; \<open>type_mapping.get(file_type)\<close>
  is the chain of comparisons.\<close>

definition parse_compliance_file :: "env \<Rightarrow> string \<Rightarrow> string \<Rightarrow> exn + parsed_data option" where
  "parse_compliance_file env file_type file_path =
     (if files env file_path = None then Inr None
      else if file_type = ''SSS Contributions'' then
        and_then (parse_sss_file env file_path) (\<lambda>p. Inr (Some (SSS_data p)))
      else if file_type = ''PhilHealth Rates'' then
        and_then (parse_philhealth_file env file_path) (\<lambda>p. Inr (Some (PhilHealth_data p)))
      else if file_type = ''Pag-IBIG Rates'' then
        and_then (parse_pagibig_file env file_path) (\<lambda>p. Inr (Some (PagIBIG_data p)))
      else if file_type = ''BIR Tax'' then
        and_then (parse_tax_file env file_path) (\<lambda>p. Inr (Some (Tax_data p)))
      else Inr None)"

section \<open>The database\<close>

text \<open>
  The tables the payroll engine reads and writes, with the columns it touches.  A column
  that may hold NULL and is read by the code is an \<open>option\<close>.  Every statement against the
  store succeeds: a lost connection is outside the model.
\<close>

record compliance_row =
  ct_id :: nat
  ct_type :: string
  effective_from :: date
  version :: int
  file_path :: string

record employee_row =
  emp_id :: nat
  emp_base_salary :: "rat option"
  emp_hourly_rate :: "rat option"
  emp_salary_type :: "string option"
  emp_is_active :: bool

record attendance_row =
  att_employee_id :: nat
  attendance_date :: date
  att_status :: string
  regular_hours :: "rat option"
  overtime_hours :: "rat option"
  night_differential_hours :: "rat option"
  late_minutes :: "int option"
  undertime_minutes :: "int option"
  is_holiday :: "int option"
  is_rest_day :: "int option"

record period_row =
  pp_id :: nat
  start_date :: date
  end_date :: date

record entry_row =
  e_id :: nat
  e_payroll_period_id :: nat
  e_employee_id :: nat
  e_basic_pay :: "rat option"
  e_overtime_pay :: "rat option"
  e_allowances :: "rat option"
  e_holiday_pay :: "rat option"
  e_vacation_sickleave :: "rat option"
  e_salary_adjustment :: "rat option"
  e_incentive_pay :: "rat option"
  e_gross_pay :: "rat option"
  e_sss_contrib :: "rat option"
  e_philhealth_contrib :: "rat option"
  e_pagibig_contrib :: "rat option"
  e_withholding_tax :: "rat option"
  e_late_deduction :: "rat option"
  e_cash_advance :: "rat option"
  e_undertime_deduction :: "rat option"
  e_other_deductions :: "rat option"
  e_total_deductions :: "rat option"
  e_net_pay :: "rat option"
  e_status :: "string option"

text \<open>The note of a history record is an f-string around the regular hours, kept here as
  the tag of the text and the number formatted into it.\<close>

datatype history_note = Payroll_recomputed_with rat | Initial_payroll_computation_with rat

record history_row =
  h_id :: nat
  h_payroll_entry_id :: nat
  h_payroll_period_id :: nat
  h_employee_id :: nat
  h_transaction_type :: string
  h_previous_status :: "string option"
  h_new_status :: "string option"
  h_previous_gross_pay :: "rat option"
  h_new_gross_pay :: "rat option"
  h_previous_net_pay :: "rat option"
  h_new_net_pay :: "rat option"
  h_changed_by :: "nat option"
  h_notes :: "history_note option"

record db =
  employees :: "employee_row list"
  attendance :: "attendance_row list"
  system_settings :: "(string \<times> string) list"
  payroll_periods :: "period_row list"
  payroll_entries :: "entry_row list"
  payroll_transaction_history :: "history_row list"
  tax_tables :: "compliance_row list"
  contribution_tables :: "compliance_row list"
  next_entry_id :: nat
  next_history_id :: nat

section \<open>compliance\_model.py\<close>

definition type_mapping :: "string \<Rightarrow> string option" where
  "type_mapping file_type =
     (if file_type = ''BIR Tax'' then Some ''TAX''
      else if file_type = ''SSS Contributions'' then Some ''SSS''
      else if file_type = ''PhilHealth Rates'' then Some ''PHILHEALTH''
      else if file_type = ''Pag-IBIG Rates'' then Some ''PAGIBIG''
      else None)"

text \<open>\<open>ORDER BY effective_from DESC, version DESC LIMIT 1\<close>: the greatest row by
  (effective\_from, version); among rows equal in both, the first of the table.\<close>

definition newer :: "compliance_row \<Rightarrow> compliance_row \<Rightarrow> bool" where
  "newer a b = (effective_from b < effective_from a
                \<or> (effective_from b = effective_from a \<and> version b < version a))"

fun latest :: "compliance_row list \<Rightarrow> compliance_row option" where
  "latest [] = None"
| "latest (r # rs) =
     (case latest rs of None \<Rightarrow> Some r | Some b \<Rightarrow> if newer b r then Some b else Some r)"

definition get_latest_compliance_file :: "env \<Rightarrow> db \<Rightarrow> string \<Rightarrow> compliance_row option" where
  "get_latest_compliance_file env d file_type =
     (let db_type = (case type_mapping file_type of Some t \<Rightarrow> t | None \<Rightarrow> upper file_type)
      in if db_type = ''TAX'' then
           latest (filter (\<lambda>r. effective_from r \<le> today env) (tax_tables d))
         else
           latest (filter (\<lambda>r. ct_type r = db_type \<and> effective_from r \<le> today env)
                     (contribution_tables d)))"

record deductions =
  sss :: rat
  philhealth :: rat
  pagibig :: rat
  tax :: rat

text \<open>The built-in rules; the source writes each of them twice, once for "no file" and once
  for "no brackets parsed".\<close>

definition default_sss :: "rat \<Rightarrow> rat" where
  "default_sss gross_pay =
     (if gross_pay \<le> 3250 then 135
      else if gross_pay \<le> 24750 then min (gross_pay * (45 / 1000)) 1125
      else 1125)"

definition default_philhealth :: "rat \<Rightarrow> rat" where
  "default_philhealth gross_pay =
     (if gross_pay \<le> 10000 then 300
      else if gross_pay \<le> 80000 then gross_pay * (3 / 100)
      else 2400)"

definition default_pagibig :: "rat \<Rightarrow> rat" where
  "default_pagibig gross_pay =
     (if gross_pay \<le> 1500 then gross_pay * (1 / 100)
      else min (gross_pay * (2 / 100)) 100)"

definition default_tax :: "rat \<Rightarrow> rat" where
  "default_tax taxable =
     (if taxable \<le> 20833 then 0
      else if taxable \<le> 33332 then (taxable - 20833) * (20 / 100)
      else if taxable \<le> 66666 then 2500 + (taxable - 33332) * (25 / 100)
      else if taxable \<le> 166666 then 10833 + (taxable - 66666) * (30 / 100)
      else 40833 + (taxable - 166666) * (32 / 100))"

text \<open>The bracket loops: the first bracket that contains the amount decides, and the loop
  stops there; \<open>cur\<close> is the value the deduction had before the loop (0.0).\<close>

fun sss_lookup :: "sss_bracket list \<Rightarrow> rat \<Rightarrow> rat \<Rightarrow> rat" where
  "sss_lookup [] gross_pay cur = cur"
| "sss_lookup (b # bs) gross_pay cur =
     (if sss_min b \<le> gross_pay \<and> gross_pay \<le> sss_max b then sss_employee_share b
      else sss_lookup bs gross_pay cur)"

definition opt_truthy :: "rat option \<Rightarrow> bool" where
  "opt_truthy x = (case x of None \<Rightarrow> False | Some v \<Rightarrow> v \<noteq> 0)"

fun philhealth_lookup :: "ph_bracket list \<Rightarrow> rat \<Rightarrow> rat \<Rightarrow> rat" where
  "philhealth_lookup [] gross_pay cur = cur"
| "philhealth_lookup (b # bs) gross_pay cur =
     (if ph_min b \<le> gross_pay \<and> le_bound gross_pay (ph_max b) then
        (case ph_employee_fixed b of
           Some f \<Rightarrow> if f \<noteq> 0 then f
                     else (case ph_employee_rate b of
                             Some r \<Rightarrow> if r \<noteq> 0 then gross_pay * r else cur
                           | None \<Rightarrow> cur)
         | None \<Rightarrow> (case ph_employee_rate b of
                       Some r \<Rightarrow> if r \<noteq> 0 then gross_pay * r else cur
                     | None \<Rightarrow> cur))
      else philhealth_lookup bs gross_pay cur)"

fun pagibig_lookup :: "pi_bracket list \<Rightarrow> rat \<Rightarrow> rat \<Rightarrow> rat \<Rightarrow> rat" where
  "pagibig_lookup [] gross_pay max_contrib cur = cur"
| "pagibig_lookup (b # bs) gross_pay max_contrib cur =
     (if pi_min b \<le> gross_pay \<and> le_bound gross_pay (pi_max b) then
        (case pi_employee_rate b of
           Some r \<Rightarrow> if r \<noteq> 0 then min (gross_pay * r) max_contrib else cur
         | None \<Rightarrow> cur)
      else pagibig_lookup bs gross_pay max_contrib cur)"

fun tax_lookup :: "tax_bracket list \<Rightarrow> rat \<Rightarrow> rat \<Rightarrow> rat" where
  "tax_lookup [] taxable cur = cur"
| "tax_lookup (b # bs) taxable cur =
     (if tax_from b \<le> taxable \<and> lt_bound taxable (tax_to b) then
        (let excess = taxable - tax_from b in tax_base_tax b + excess * tax_rate b)
      else tax_lookup bs taxable cur)"

text \<open>\<open>parsed_data and parsed_data.get('brackets')\<close>\<close>

definition has_brackets :: "parsed_data option \<Rightarrow> bool" where
  "has_brackets p = (case p of
      None \<Rightarrow> False
    | Some (SSS_data x) \<Rightarrow> brackets x \<noteq> []
    | Some (PhilHealth_data x) \<Rightarrow> brackets x \<noteq> []
    | Some (PagIBIG_data x) \<Rightarrow> brackets x \<noteq> []
    | Some (Tax_data x) \<Rightarrow> brackets x \<noteq> [])"

text \<open>\<open>f and f.get('file_path')\<close>\<close>

definition has_file :: "compliance_row option \<Rightarrow> bool" where
  "has_file f = (case f of None \<Rightarrow> False | Some r \<Rightarrow> file_path r \<noteq> [])"

definition path_of :: "compliance_row option \<Rightarrow> string" where
  "path_of f = (case f of None \<Rightarrow> [] | Some r \<Rightarrow> file_path r)"

text \<open>The four sections of \<open>calculate_compliance_deductions\<close>.  A parsed dictionary of
  another table type has none of the keys the loop reads: a KeyError.\<close>

definition sss_calculation :: "env \<Rightarrow> compliance_row option \<Rightarrow> rat \<Rightarrow> exn + rat" where
  "sss_calculation env sss_file gross_pay =
     (if has_file sss_file then
        and_then (parse_compliance_file env ''SSS Contributions'' (path_of sss_file))
          (\<lambda>parsed_data.
             if has_brackets parsed_data then
               (case parsed_data of
                  Some (SSS_data p) \<Rightarrow> Inr (sss_lookup (brackets p) gross_pay 0)
                | _ \<Rightarrow> Inl KeyError)
             else Inr (default_sss gross_pay))
      else Inr (default_sss gross_pay))"

definition philhealth_calculation :: "env \<Rightarrow> compliance_row option \<Rightarrow> rat \<Rightarrow> exn + rat" where
  "philhealth_calculation env philhealth_file gross_pay =
     (if has_file philhealth_file then
        and_then (parse_compliance_file env ''PhilHealth Rates'' (path_of philhealth_file))
          (\<lambda>parsed_data.
             if has_brackets parsed_data then
               (case parsed_data of
                  Some (PhilHealth_data p) \<Rightarrow> Inr (philhealth_lookup (brackets p) gross_pay 0)
                | _ \<Rightarrow> Inl KeyError)
             else Inr (default_philhealth gross_pay))
      else Inr (default_philhealth gross_pay))"

definition pagibig_calculation :: "env \<Rightarrow> compliance_row option \<Rightarrow> rat \<Rightarrow> exn + rat" where
  "pagibig_calculation env pagibig_file gross_pay =
     (if has_file pagibig_file then
        and_then (parse_compliance_file env ''Pag-IBIG Rates'' (path_of pagibig_file))
          (\<lambda>parsed_data.
             if has_brackets parsed_data then
               (case parsed_data of
                  Some (PagIBIG_data p) \<Rightarrow>
                    (let max_contrib = (case max_contribution p of Some m \<Rightarrow> m | None \<Rightarrow> 100)
                     in Inr (pagibig_lookup (brackets p) gross_pay max_contrib 0))
                | _ \<Rightarrow> Inl KeyError)
             else Inr (default_pagibig gross_pay))
      else Inr (default_pagibig gross_pay))"

definition tax_calculation :: "env \<Rightarrow> compliance_row option \<Rightarrow> rat \<Rightarrow> exn + rat" where
  "tax_calculation env tax_file taxable =
     (if has_file tax_file then
        and_then (parse_compliance_file env ''BIR Tax'' (path_of tax_file))
          (\<lambda>parsed_data.
             if has_brackets parsed_data then
               (case parsed_data of
                  Some (Tax_data p) \<Rightarrow> Inr (tax_lookup (brackets p) taxable 0)
                | _ \<Rightarrow> Inl KeyError)
             else Inr (default_tax taxable))
      else Inr (default_tax taxable))"

definition calculate_compliance_deductions ::
  "env \<Rightarrow> db \<Rightarrow> rat \<Rightarrow> date \<Rightarrow> exn + deductions" where
  "calculate_compliance_deductions env d gross_pay period_date =
     (let sss_file = get_latest_compliance_file env d ''SSS Contributions'';
          philhealth_file = get_latest_compliance_file env d ''PhilHealth Rates'';
          pagibig_file = get_latest_compliance_file env d ''Pag-IBIG Rates'';
          tax_file = get_latest_compliance_file env d ''BIR Tax''
      in and_then (sss_calculation env sss_file gross_pay) (\<lambda>s.
         and_then (philhealth_calculation env philhealth_file gross_pay) (\<lambda>p.
         and_then (pagibig_calculation env pagibig_file gross_pay) (\<lambda>g.
         (let taxable = gross_pay - (s + p + g) in
         and_then (tax_calculation env tax_file taxable) (\<lambda>t.
           Inr \<lparr>sss = s, philhealth = p, pagibig = g, tax = t\<rparr>))))))"

section \<open>employee\_model.py and timekeeping\_model.py\<close>

record Employee =
  employee_no :: nat
  base_salary :: rat
  hourly_rate :: rat
  salary_type :: "string option"
  is_active :: bool

text \<open>\<open>float(v)\<close> on a DECIMAL column: NULL arrives as \<open>None\<close>, and \<open>float(None)\<close> is a
  TypeError.\<close>

definition float_col :: "rat option \<Rightarrow> exn + rat" where
  "float_col v = (case v of None \<Rightarrow> Inl TypeError | Some r \<Rightarrow> Inr r)"

definition int_col :: "int option \<Rightarrow> exn + int" where
  "int_col v = (case v of None \<Rightarrow> Inl TypeError | Some n \<Rightarrow> Inr n)"

definition bool_col :: "int option \<Rightarrow> bool" where
  "bool_col v = (case v of None \<Rightarrow> False | Some n \<Rightarrow> n \<noteq> 0)"

definition get_employee_by_id :: "db \<Rightarrow> nat \<Rightarrow> exn + Employee option" where
  "get_employee_by_id d employee_id =
     (case find (\<lambda>r. emp_id r = employee_id) (employees d) of
        None \<Rightarrow> Inr None
      | Some row \<Rightarrow>
          and_then (float_col (emp_base_salary row)) (\<lambda>b.
          and_then (float_col (emp_hourly_rate row)) (\<lambda>h.
            Inr (Some \<lparr>employee_no = emp_id row, base_salary = b, hourly_rate = h,
                       salary_type = emp_salary_type row,
                       is_active = emp_is_active row\<rparr>))))"

definition numeric_setting_keys :: "string list" where
  "numeric_setting_keys =
     [''regular_work_hours_per_day'', ''overtime_rate_multiplier'',
      ''night_differential_rate'', ''holiday_rate_multiplier'',
      ''rest_day_rate_multiplier'']"

definition work_setting_keys :: "string list" where
  "work_setting_keys =
     [''regular_work_hours_per_day'', ''regular_work_start_time'', ''regular_work_end_time'',
      ''overtime_rate_multiplier'', ''night_differential_start'', ''night_differential_end'',
      ''night_differential_rate'', ''holiday_rate_multiplier'', ''rest_day_rate_multiplier'']"

fun settings_loop ::
  "env \<Rightarrow> (string \<times> string) list \<Rightarrow> (string \<Rightarrow> pyval option) \<Rightarrow> exn + (string \<Rightarrow> pyval option)"
where
  "settings_loop env [] settings = Inr settings"
| "settings_loop env ((key, v) # rows) settings =
     (if key \<in> set numeric_setting_keys then
        and_then (py_float env (PStr v)) (\<lambda>x. settings_loop env rows (settings(key \<mapsto> PNum x)))
      else settings_loop env rows (settings(key \<mapsto> PStr v)))"

definition get_company_work_settings :: "env \<Rightarrow> db \<Rightarrow> exn + (string \<Rightarrow> pyval option)" where
  "get_company_work_settings env d =
     settings_loop env
       (filter (\<lambda>(key, v). key \<in> set work_setting_keys) (system_settings d)) Map.empty"

text \<open>\<open>settings.get(key, default)\<close> used as a factor of a product of floats.\<close>

definition setting_factor :: "(string \<Rightarrow> pyval option) \<Rightarrow> string \<Rightarrow> rat \<Rightarrow> exn + rat" where
  "setting_factor settings key dflt =
     (case settings key of
        None \<Rightarrow> Inr dflt
      | Some (PNum x) \<Rightarrow> Inr x
      | Some _ \<Rightarrow> Inl TypeError)"

section \<open>payroll\_transaction\_history.py\<close>

definition log_payroll_transaction ::
  "db \<Rightarrow> nat \<Rightarrow> nat \<Rightarrow> nat \<Rightarrow> string \<Rightarrow> string option \<Rightarrow> string option \<Rightarrow> rat option
   \<Rightarrow> rat option \<Rightarrow> rat option \<Rightarrow> rat option \<Rightarrow> nat option \<Rightarrow> history_note option
   \<Rightarrow> db \<times> nat" where
  "log_payroll_transaction d payroll_entry_id payroll_period_id employee_id transaction_type
     previous_status new_status previous_gross_pay new_gross_pay previous_net_pay new_net_pay
     changed_by notes =
     (let transaction_id = next_history_id d in
      (d\<lparr>payroll_transaction_history := payroll_transaction_history d @
            [\<lparr>h_id = transaction_id, h_payroll_entry_id = payroll_entry_id,
              h_payroll_period_id = payroll_period_id, h_employee_id = employee_id,
              h_transaction_type = transaction_type,
              h_previous_status = previous_status, h_new_status = new_status,
              h_previous_gross_pay = previous_gross_pay, h_new_gross_pay = new_gross_pay,
              h_previous_net_pay = previous_net_pay, h_new_net_pay = new_net_pay,
              h_changed_by = changed_by, h_notes = notes\<rparr>],
          next_history_id := Suc transaction_id\<rparr>,
       transaction_id))"

section \<open>payroll\_computation\_model.py\<close>

text \<open>Python's \<open>round(x, 2)\<close> on the exact value: to the nearest hundredth, a tie to the even
  one.\<close>

definition round_half_even :: "rat \<Rightarrow> int" where
  "round_half_even x =
     (let f = \<lfloor>x\<rfloor>; r = x - of_int f
      in if r < 1 / 2 then f else if 1 / 2 < r then f + 1 else if even f then f else f + 1)"

definition round2 :: "rat \<Rightarrow> rat" where
  "round2 x = of_int (round_half_even (x * 100)) / 100"

definition calculate_hourly_rate_from_salary :: "rat \<Rightarrow> string option \<Rightarrow> rat" where
  "calculate_hourly_rate_from_salary b st =
     (if st = Some ''HOURLY'' then b
      else if st = Some ''DAILY'' then b / 8
      else if st = Some ''MONTHLY'' then b / 176
      else b / 176)"

definition get_attendance_for_period :: "db \<Rightarrow> nat \<Rightarrow> date \<Rightarrow> date \<Rightarrow> attendance_row list" where
  "get_attendance_for_period d employee_id sd ed =
     sort_key attendance_date
       (filter (\<lambda>r. att_employee_id r = employee_id
                     \<and> sd \<le> attendance_date r \<and> attendance_date r \<le> ed
                     \<and> (att_status r = ''PRESENT'' \<or> att_status r = ''LATE''))
          (attendance d))"

record totals =
  tot_regular_hours :: rat
  tot_overtime_hours :: rat
  tot_night_diff_hours :: rat
  tot_late_minutes :: int
  tot_undertime_minutes :: int
  tot_holiday_hours :: rat
  tot_rest_day_hours :: rat

definition process_record :: "attendance_row \<Rightarrow> totals \<Rightarrow> exn + totals" where
  "process_record r t =
     and_then (float_col (regular_hours r)) (\<lambda>rh.
     and_then (float_col (overtime_hours r)) (\<lambda>oh.
     and_then (float_col (night_differential_hours r)) (\<lambda>nh.
     and_then (int_col (late_minutes r)) (\<lambda>lm.
     and_then (int_col (undertime_minutes r)) (\<lambda>um.
       Inr \<lparr>tot_regular_hours = tot_regular_hours t + rh,
            tot_overtime_hours = tot_overtime_hours t + oh,
            tot_night_diff_hours = tot_night_diff_hours t + nh,
            tot_late_minutes = tot_late_minutes t + lm,
            tot_undertime_minutes = tot_undertime_minutes t + um,
            tot_holiday_hours =
              (if bool_col (is_holiday r) then tot_holiday_hours t + rh
               else tot_holiday_hours t),
            tot_rest_day_hours =
              (if bool_col (is_rest_day r) then tot_rest_day_hours t + rh
               else tot_rest_day_hours t)\<rparr>)))))"

fun process_records :: "attendance_row list \<Rightarrow> totals \<Rightarrow> exn + totals" where
  "process_records [] t = Inr t"
| "process_records (r # rs) t = and_then (process_record r t) (process_records rs)"

definition zero_totals :: totals where
  "zero_totals = \<lparr>tot_regular_hours = 0, tot_overtime_hours = 0, tot_night_diff_hours = 0,
                  tot_late_minutes = 0, tot_undertime_minutes = 0,
                  tot_holiday_hours = 0, tot_rest_day_hours = 0\<rparr>"

record payroll_data =
  employee_id :: nat
  payroll_period_id :: nat
  basic_pay :: rat
  overtime_pay :: rat
  allowances :: rat
  holiday_pay :: rat
  vacation_sickleave :: rat
  salary_adjustment :: rat
  incentive_pay :: rat
  night_differential_pay :: rat
  rest_day_pay :: rat
  gross_pay :: rat
  sss_contrib :: rat
  philhealth_contrib :: rat
  pagibig_contrib :: rat
  withholding_tax :: rat
  late_deduction :: rat
  cash_advance :: rat
  undertime_deduction :: rat
  other_deductions :: rat
  total_deductions :: rat
  net_pay :: rat
  status :: string
  total_regular_hours :: rat
  total_overtime_hours :: rat
  total_night_diff_hours :: rat
  total_late_minutes :: int
  total_undertime_minutes :: int

text \<open>The four multipliers, each \<open>settings.get(key, default)\<close>.\<close>

record rates =
  overtime_rate_multiplier :: rat
  night_diff_rate :: rat
  holiday_rate_multiplier :: rat
  rest_day_rate_multiplier :: rat

definition read_rates :: "(string \<Rightarrow> pyval option) \<Rightarrow> exn + rates" where
  "read_rates settings =
     and_then (setting_factor settings ''overtime_rate_multiplier'' (125 / 100)) (\<lambda>otm.
     and_then (setting_factor settings ''night_differential_rate'' (10 / 100)) (\<lambda>ndr.
     and_then (setting_factor settings ''holiday_rate_multiplier'' 2) (\<lambda>hrm.
     and_then (setting_factor settings ''rest_day_rate_multiplier'' (13 / 10)) (\<lambda>rdm.
       Inr \<lparr>overtime_rate_multiplier = otm, night_diff_rate = ndr,
            holiday_rate_multiplier = hrm, rest_day_rate_multiplier = rdm\<rparr>))))"

text \<open>The unrounded local variables of \<open>calculate_payroll_for_employee\<close> up to
  \<open>gross_pay\<close>; the four manual earnings are the constant 0.0.\<close>

record amounts =
  raw_basic_pay :: rat
  raw_overtime_pay :: rat
  raw_night_differential_pay :: rat
  raw_holiday_pay :: rat
  raw_rest_day_pay :: rat
  raw_late_deduction :: rat
  raw_undertime_deduction :: rat
  raw_allowances :: rat
  raw_vacation_sickleave :: rat
  raw_salary_adjustment :: rat
  raw_incentive_pay :: rat
  raw_gross_pay :: rat

definition hourly_rate_of :: "Employee \<Rightarrow> rat" where
  "hourly_rate_of employee =
     (if 0 < hourly_rate employee then hourly_rate employee
      else calculate_hourly_rate_from_salary (base_salary employee) (salary_type employee))"

definition pay_amounts :: "rat \<Rightarrow> totals \<Rightarrow> rates \<Rightarrow> amounts" where
  "pay_amounts hourly t rs =
     (let basic = tot_regular_hours t * hourly;
          overtime = tot_overtime_hours t * hourly * overtime_rate_multiplier rs;
          night_differential = tot_night_diff_hours t * hourly * night_diff_rate rs;
          holiday = tot_holiday_hours t * hourly * holiday_rate_multiplier rs;
          rest_day = tot_rest_day_hours t * hourly * rest_day_rate_multiplier rs;
          late_deduction_rate = hourly / 60;
          late = of_int (tot_late_minutes t) * late_deduction_rate;
          undertime_deduction_rate = hourly / 60;
          undertime = of_int (tot_undertime_minutes t) * undertime_deduction_rate;
          allowances0 = 0;
          vacation_sickleave0 = 0;
          salary_adjustment0 = 0;
          incentive_pay0 = 0;
          gross = basic + overtime + night_differential + holiday + rest_day + allowances0
                  + vacation_sickleave0 + salary_adjustment0 + incentive_pay0
      in \<lparr>raw_basic_pay = basic, raw_overtime_pay = overtime,
           raw_night_differential_pay = night_differential, raw_holiday_pay = holiday,
           raw_rest_day_pay = rest_day, raw_late_deduction = late,
           raw_undertime_deduction = undertime, raw_allowances = allowances0,
           raw_vacation_sickleave = vacation_sickleave0,
           raw_salary_adjustment = salary_adjustment0, raw_incentive_pay = incentive_pay0,
           raw_gross_pay = gross\<rparr>)"

text \<open>Lines 75 to 155: the employee, the settings, the attendance totals and the unrounded
  amounts.\<close>

definition compute_amounts ::
  "env \<Rightarrow> db \<Rightarrow> nat \<Rightarrow> date \<Rightarrow> date \<Rightarrow> exn + (totals \<times> amounts)" where
  "compute_amounts env d emp sd ed =
     and_then (get_employee_by_id d emp) (\<lambda>employee.
       (case employee of
          None \<Rightarrow> Inl ValueError
        | Some employee \<Rightarrow>
            and_then (get_company_work_settings env d) (\<lambda>settings.
            (let hourly = hourly_rate_of employee;
                 attendance_records = get_attendance_for_period d emp sd ed
             in and_then (process_records attendance_records zero_totals) (\<lambda>t.
                and_then (read_rates settings) (\<lambda>rs.
                  Inr (t, pay_amounts hourly t rs)))))))"

text \<open>Lines 161 to 208: the deductions, the totals and the returned dictionary.\<close>

definition payroll_dict ::
  "nat \<Rightarrow> nat \<Rightarrow> totals \<Rightarrow> amounts \<Rightarrow> deductions \<Rightarrow> payroll_data" where
  "payroll_dict emp period_id t a compliance_deductions =
     (let sss_c = sss compliance_deductions;
          philhealth_c = philhealth compliance_deductions;
          pagibig_c = pagibig compliance_deductions;
          withholding = tax compliance_deductions;
          cash_advance0 = 0;
          other_deductions0 = 0;
          total = sss_c + philhealth_c + pagibig_c + withholding + raw_late_deduction a
                  + cash_advance0 + raw_undertime_deduction a + other_deductions0;
          net = raw_gross_pay a - total
      in \<lparr>employee_id = emp,
           payroll_period_id = period_id,
           basic_pay = round2 (raw_basic_pay a),
           overtime_pay = round2 (raw_overtime_pay a),
           allowances = round2 (raw_allowances a),
           holiday_pay = round2 (raw_holiday_pay a),
           vacation_sickleave = round2 (raw_vacation_sickleave a),
           salary_adjustment = round2 (raw_salary_adjustment a),
           incentive_pay = round2 (raw_incentive_pay a),
           night_differential_pay = round2 (raw_night_differential_pay a),
           rest_day_pay = round2 (raw_rest_day_pay a),
           gross_pay = round2 (raw_gross_pay a),
           sss_contrib = round2 sss_c,
           philhealth_contrib = round2 philhealth_c,
           pagibig_contrib = round2 pagibig_c,
           withholding_tax = round2 withholding,
           late_deduction = round2 (raw_late_deduction a),
           cash_advance = round2 cash_advance0,
           undertime_deduction = round2 (raw_undertime_deduction a),
           other_deductions = round2 other_deductions0,
           total_deductions = round2 total,
           net_pay = round2 net,
           status = ''PENDING'',
           total_regular_hours = tot_regular_hours t,
           total_overtime_hours = tot_overtime_hours t,
           total_night_diff_hours = tot_night_diff_hours t,
           total_late_minutes = tot_late_minutes t,
           total_undertime_minutes = tot_undertime_minutes t\<rparr>)"

definition calculate_payroll_for_employee ::
  "env \<Rightarrow> db \<Rightarrow> nat \<Rightarrow> nat \<Rightarrow> date \<Rightarrow> date \<Rightarrow> exn + payroll_data" where
  "calculate_payroll_for_employee env d emp period_id sd ed =
     and_then (compute_amounts env d emp sd ed) (\<lambda>(t, a).
     (let period_date = sd in
      and_then (calculate_compliance_deductions env d (raw_gross_pay a) period_date)
        (\<lambda>compliance_deductions.
           Inr (payroll_dict emp period_id t a compliance_deductions))))"

text \<open>\<open>float(existing[k]) if existing.get(k) else 0.0\<close>\<close>

definition float_or_zero :: "rat option \<Rightarrow> rat" where
  "float_or_zero v = (case v of None \<Rightarrow> 0 | Some x \<Rightarrow> if x \<noteq> 0 then x else 0)"

text \<open>The assignments of the UPDATE statement and the values of the INSERT statement.\<close>

definition set_entry_fields :: "payroll_data \<Rightarrow> entry_row \<Rightarrow> entry_row" where
  "set_entry_fields pd r =
     r\<lparr>e_basic_pay := Some (basic_pay pd),
       e_overtime_pay := Some (overtime_pay pd),
       e_allowances := Some (allowances pd),
       e_holiday_pay := Some (holiday_pay pd),
       e_vacation_sickleave := Some (vacation_sickleave pd),
       e_salary_adjustment := Some (salary_adjustment pd),
       e_incentive_pay := Some (incentive_pay pd),
       e_gross_pay := Some (gross_pay pd),
       e_sss_contrib := Some (sss_contrib pd),
       e_philhealth_contrib := Some (philhealth_contrib pd),
       e_pagibig_contrib := Some (pagibig_contrib pd),
       e_withholding_tax := Some (withholding_tax pd),
       e_late_deduction := Some (late_deduction pd),
       e_cash_advance := Some (cash_advance pd),
       e_undertime_deduction := Some (undertime_deduction pd),
       e_other_deductions := Some (other_deductions pd),
       e_total_deductions := Some (total_deductions pd),
       e_net_pay := Some (net_pay pd),
       e_status := Some (status pd)\<rparr>"

definition new_entry :: "nat \<Rightarrow> payroll_data \<Rightarrow> entry_row" where
  "new_entry i pd =
     \<lparr>e_id = i,
      e_payroll_period_id = payroll_period_id pd,
      e_employee_id = employee_id pd,
      e_basic_pay = Some (basic_pay pd),
      e_overtime_pay = Some (overtime_pay pd),
      e_allowances = Some (allowances pd),
      e_holiday_pay = Some (holiday_pay pd),
      e_vacation_sickleave = Some (vacation_sickleave pd),
      e_salary_adjustment = Some (salary_adjustment pd),
      e_incentive_pay = Some (incentive_pay pd),
      e_gross_pay = Some (gross_pay pd),
      e_sss_contrib = Some (sss_contrib pd),
      e_philhealth_contrib = Some (philhealth_contrib pd),
      e_pagibig_contrib = Some (pagibig_contrib pd),
      e_withholding_tax = Some (withholding_tax pd),
      e_late_deduction = Some (late_deduction pd),
      e_cash_advance = Some (cash_advance pd),
      e_undertime_deduction = Some (undertime_deduction pd),
      e_other_deductions = Some (other_deductions pd),
      e_total_deductions = Some (total_deductions pd),
      e_net_pay = Some (net_pay pd),
      e_status = Some (status pd)\<rparr>"

text \<open>\<open>SELECT ... FROM payroll_entries WHERE payroll_period_id = %s AND employee_id = %s\<close>
  followed by \<open>fetchone()\<close>.\<close>

definition find_entry :: "db \<Rightarrow> nat \<Rightarrow> nat \<Rightarrow> entry_row option" where
  "find_entry d period_id emp =
     find (\<lambda>r. e_payroll_period_id r = period_id \<and> e_employee_id r = emp) (payroll_entries d)"

definition save_payroll_entry :: "db \<Rightarrow> payroll_data \<Rightarrow> nat option \<Rightarrow> db \<times> nat" where
  "save_payroll_entry d pd changed_by =
     (case find_entry d (payroll_period_id pd) (employee_id pd) of
        Some existing \<Rightarrow>
          (let previous_gross_pay = float_or_zero (e_gross_pay existing);
               previous_net_pay = float_or_zero (e_net_pay existing);
               previous_status = e_status existing;
               d1 = d\<lparr>payroll_entries :=
                        map (\<lambda>r. if e_id r = e_id existing then set_entry_fields pd r else r)
                          (payroll_entries d)\<rparr>;
               entry_id = e_id existing;
               (d2, transaction_id) =
                 log_payroll_transaction d1 entry_id (payroll_period_id pd) (employee_id pd)
                   ''UPDATED'' previous_status (Some (status pd))
                   (Some previous_gross_pay) (Some (gross_pay pd))
                   (Some previous_net_pay) (Some (net_pay pd))
                   changed_by (Some (Payroll_recomputed_with (total_regular_hours pd)))
           in (d2, entry_id))
      | None \<Rightarrow>
          (let entry_id = next_entry_id d;
               d1 = d\<lparr>payroll_entries := payroll_entries d @ [new_entry entry_id pd],
                      next_entry_id := Suc entry_id\<rparr>;
               (d2, transaction_id) =
                 log_payroll_transaction d1 entry_id (payroll_period_id pd) (employee_id pd)
                   ''CREATED'' None (Some (status pd))
                   None (Some (gross_pay pd))
                   None (Some (net_pay pd))
                   changed_by
                   (Some (Initial_payroll_computation_with (total_regular_hours pd)))
           in (d2, entry_id)))"






text \<open>The data model's invariant on payroll entries: at most one per (period, employee).\<close>

definition unique_keys :: "db \<Rightarrow> bool" where
  "unique_keys d =
     distinct (map (\<lambda>r. (e_payroll_period_id r, e_employee_id r)) (payroll_entries d))"



section \<open>Concrete stores and files\<close>

text \<open>
  The inputs at which the theorems below are evaluated.  \<open>example_float\<close> is Python's
  \<open>float\<close> on the strings that occur in the example files and settings (any other string
  is taken as unparsable).  The clock stands at 15 August 2024.
\<close>

definition example_float :: "string \<Rightarrow> rat option" where
  "example_float = map_of
     [(''0'', 0), (''0.00'', 0), (''8'', 8), (''1.25'', 5 / 4), (''0.10'', 1 / 10),
      (''2.0'', 2), (''1.3'', 13 / 10), (''20'', 20), (''100000'', 100000),
      (''100.00'', 100), (''200.00'', 200), (''3250'', 3250), (''3251'', 3251),
      (''3750'', 3750), (''135.00'', 135), (''157.50'', 315 / 2),
      (''20833'', 20833), (''33332'', 33332)]"

definition sss_row :: "string \<Rightarrow> string \<Rightarrow> string \<Rightarrow> csv_row" where
  "sss_row rng ee er =
     map_of [(''Salary Range'', Some rng), (''Employee Share'', Some ee),
             (''Employer Share'', Some er)]"

definition tax_row :: "string \<Rightarrow> string \<Rightarrow> string \<Rightarrow> string \<Rightarrow> csv_row" where
  "tax_row fr to base rate =
     map_of [(''Taxable Income From'', Some fr), (''To'', Some to), (''Base Tax'', Some base),
             (''Rate Over'', Some rate)]"

definition csv_file :: "csv_row list \<Rightarrow> stored_file" where
  "csv_file rows = \<lparr>csv_rows = Inr rows, xlsx_rows = Inl OSError\<rparr>"

definition example_files :: "string \<Rightarrow> stored_file option" where
  "example_files = map_of
     [(''SSS_20240101_v1.csv'', csv_file [sss_row ''0-100000'' ''100.00'' ''100.00'']),
      (''SSS_20240601_v2.csv'', csv_file [sss_row ''0-100000'' ''200.00'' ''200.00'']),
      (''TAX_20240101_v1.csv'',
         csv_file [tax_row ''0'' ''20833'' ''0.00'' ''0%'',
                   tax_row ''20833'' ''33332'' ''0.00'' ''20%'']),
      (''sss_open_range.csv'',
         csv_file [sss_row ''0-3250'' ''135.00'' ''135.00'',
                   sss_row ''3251+'' ''157.50'' ''157.50'']),
      (''sss_bad_amount.csv'',
         csv_file [sss_row ''0-3250'' ''135.00'' ''135.00'',
                   sss_row ''3251-3750'' ''n/a'' ''157.50'']),
      (''notes.txt'', csv_file [sss_row ''0-3250'' ''135.00'' ''135.00''])]"

definition example_env :: env where
  "example_env = \<lparr>today = (2024, 8, 15), files = example_files, EXCEL_AVAILABLE = True,
                   float_str = example_float, str_num = (\<lambda>r. [])\<rparr>"

definition att :: "nat \<Rightarrow> date \<Rightarrow> rat \<Rightarrow> rat \<Rightarrow> rat \<Rightarrow> int \<Rightarrow> int \<Rightarrow> int \<Rightarrow> int \<Rightarrow> attendance_row"
where
  "att emp day rh oh nh lm um hol rest =
     \<lparr>att_employee_id = emp, attendance_date = day, att_status = ''PRESENT'',
      regular_hours = Some rh, overtime_hours = Some oh, night_differential_hours = Some nh,
      late_minutes = Some lm, undertime_minutes = Some um,
      is_holiday = Some hol, is_rest_day = Some rest\<rparr>"

text \<open>
  Four employees: 1 is paid monthly (17600, so 100 an hour), 2 has no salary stored (NULL),
  3 is paid 62.53 an hour, 4 is inactive and has neither a rate nor a salary.  The period
  1 runs from 1 to 15 May 2024.  No rate table has been uploaded.
\<close>

definition example_db :: db where
  "example_db =
     \<lparr>employees =
        [\<lparr>emp_id = 1, emp_base_salary = Some 17600, emp_hourly_rate = Some 0,
          emp_salary_type = Some ''MONTHLY'', emp_is_active = True\<rparr>,
         \<lparr>emp_id = 2, emp_base_salary = None, emp_hourly_rate = Some 0,
          emp_salary_type = Some ''MONTHLY'', emp_is_active = True\<rparr>,
         \<lparr>emp_id = 3, emp_base_salary = Some 0, emp_hourly_rate = Some (6253 / 100),
          emp_salary_type = Some ''HOURLY'', emp_is_active = True\<rparr>,
         \<lparr>emp_id = 4, emp_base_salary = Some 0, emp_hourly_rate = Some 0,
          emp_salary_type = Some ''MONTHLY'', emp_is_active = False\<rparr>],
      attendance =
        [att 1 (2024, 5, 2) 8 0 0 15 0 0 0,
         att 1 (2024, 5, 3) 8 0 0 0 0 0 0,
         att 3 (2024, 5, 2) (726 / 100) (219 / 100) (22 / 100) 0 0 1 1,
         att 4 (2024, 5, 2) 8 1 0 30 10 0 0],
      system_settings =
        [(''pay_period_schedule'', ''SEMI - MONTHLY''),
         (''regular_work_hours_per_day'', ''8''),
         (''regular_work_start_time'', ''08:00:00''),
         (''overtime_rate_multiplier'', ''1.25''),
         (''night_differential_rate'', ''0.10''),
         (''holiday_rate_multiplier'', ''2.0''),
         (''rest_day_rate_multiplier'', ''1.3'')],
      payroll_periods = [\<lparr>pp_id = 1, start_date = (2024, 5, 1), end_date = (2024, 5, 15)\<rparr>],
      payroll_entries = [],
      payroll_transaction_history = [],
      tax_tables = [],
      contribution_tables = [],
      next_entry_id = 1,
      next_history_id = 1\<rparr>"

text \<open>What \<open>calculate_payroll_for_employee\<close> returns for employee 3 in period 1.\<close>

definition employee3_payroll :: payroll_data where
  "employee3_payroll =
     \<lparr>employee_id = 3, payroll_period_id = 1,
      basic_pay = 45397 / 100, overtime_pay = 17118 / 100, allowances = 0,
      holiday_pay = 90794 / 100, vacation_sickleave = 0, salary_adjustment = 0,
      incentive_pay = 0, night_differential_pay = 138 / 100, rest_day_pay = 59016 / 100,
      gross_pay = 212461 / 100,
      sss_contrib = 135, philhealth_contrib = 300, pagibig_contrib = 4249 / 100,
      withholding_tax = 0, late_deduction = 0, cash_advance = 0, undertime_deduction = 0,
      other_deductions = 0, total_deductions = 47749 / 100, net_pay = 164712 / 100,
      status = ''PENDING'',
      total_regular_hours = 726 / 100, total_overtime_hours = 219 / 100,
      total_night_diff_hours = 22 / 100, total_late_minutes = 0,
      total_undertime_minutes = 0\<rparr>"

text \<open>The same store after two SSS tables (effective 1 January and 1 June 2024) and one
  tax table have been uploaded.\<close>

definition rated_db :: db where
  "rated_db = example_db
     \<lparr>tax_tables :=
        [\<lparr>ct_id = 1, ct_type = ''BIR Tax'', effective_from = (2024, 1, 1), version = 1,
          file_path = ''TAX_20240101_v1.csv''\<rparr>],
      contribution_tables :=
        [\<lparr>ct_id = 1, ct_type = ''SSS'', effective_from = (2024, 1, 1), version = 1,
          file_path = ''SSS_20240101_v1.csv''\<rparr>,
         \<lparr>ct_id = 2, ct_type = ''SSS'', effective_from = (2024, 6, 1), version = 2,
          file_path = ''SSS_20240601_v2.csv''\<rparr>]\<rparr>"

section \<open>Exceptions and the parsers\<close>

lemma and_then_Inr: "and_then (Inr x) f = f x"
  by (simp add: and_then_def)



lemma try_except_total: "\<exists>r. try_except m (\<lambda>e. Inr c) = Inr r"
  by (cases m) (simp_all add: try_except_def)

lemma parse_sss_file_total: "\<exists>r. parse_sss_file env p = Inr r"
  unfolding parse_sss_file_def by (rule try_except_total)

lemma parse_philhealth_file_total: "\<exists>r. parse_philhealth_file env p = Inr r"
  unfolding parse_philhealth_file_def by (rule try_except_total)

lemma parse_pagibig_file_total: "\<exists>r. parse_pagibig_file env p = Inr r"
  unfolding parse_pagibig_file_def by (rule try_except_total)

lemma parse_tax_file_total: "\<exists>r. parse_tax_file env p = Inr r"
  unfolding parse_tax_file_def by (rule try_except_total)

lemma parse_compliance_file_sss:
  "parse_compliance_file env ''SSS Contributions'' p = Inr None
   \<or> (\<exists>x. parse_compliance_file env ''SSS Contributions'' p = Inr (Some (SSS_data x)))"
  using parse_sss_file_total [of env p]
  by (auto simp: parse_compliance_file_def and_then_Inr)

lemma parse_compliance_file_philhealth:
  "parse_compliance_file env ''PhilHealth Rates'' p = Inr None
   \<or> (\<exists>x. parse_compliance_file env ''PhilHealth Rates'' p = Inr (Some (PhilHealth_data x)))"
  using parse_philhealth_file_total [of env p]
  by (auto simp: parse_compliance_file_def and_then_Inr)

lemma parse_compliance_file_pagibig:
  "parse_compliance_file env ''Pag-IBIG Rates'' p = Inr None
   \<or> (\<exists>x. parse_compliance_file env ''Pag-IBIG Rates'' p = Inr (Some (PagIBIG_data x)))"
  using parse_pagibig_file_total [of env p]
  by (auto simp: parse_compliance_file_def and_then_Inr)

lemma parse_compliance_file_tax:
  "parse_compliance_file env ''BIR Tax'' p = Inr None
   \<or> (\<exists>x. parse_compliance_file env ''BIR Tax'' p = Inr (Some (Tax_data x)))"
  using parse_tax_file_total [of env p]
  by (auto simp: parse_compliance_file_def and_then_Inr)

lemma sss_calculation_total: "\<exists>s. sss_calculation env f g = Inr s"
  using parse_compliance_file_sss [of env "path_of f"]
  by (auto simp: sss_calculation_def and_then_Inr has_brackets_def)

lemma philhealth_calculation_total: "\<exists>s. philhealth_calculation env f g = Inr s"
  using parse_compliance_file_philhealth [of env "path_of f"]
  by (auto simp: philhealth_calculation_def and_then_Inr has_brackets_def)

lemma pagibig_calculation_total: "\<exists>s. pagibig_calculation env f g = Inr s"
  using parse_compliance_file_pagibig [of env "path_of f"]
  by (auto simp: pagibig_calculation_def and_then_Inr has_brackets_def Let_def)

lemma tax_calculation_total: "\<exists>s. tax_calculation env f g = Inr s"
  using parse_compliance_file_tax [of env "path_of f"]
  by (auto simp: tax_calculation_def and_then_Inr has_brackets_def)


section \<open>The built-in rules\<close>

lemma sss_calculation_None: "sss_calculation env None g = Inr (default_sss g)"
  by (simp add: sss_calculation_def has_file_def)

lemma calc_sss_default:
  assumes "get_latest_compliance_file env d ''SSS Contributions'' = None"
  shows "\<exists>ded. calculate_compliance_deductions env d g pd = Inr ded \<and> sss ded = default_sss g"
proof -
  let ?pf = "get_latest_compliance_file env d ''PhilHealth Rates''"
  let ?gf = "get_latest_compliance_file env d ''Pag-IBIG Rates''"
  let ?tf = "get_latest_compliance_file env d ''BIR Tax''"
  obtain p where p: "philhealth_calculation env ?pf g = Inr p"
    using philhealth_calculation_total by blast
  obtain c where c: "pagibig_calculation env ?gf g = Inr c"
    using pagibig_calculation_total by blast
  obtain t where t: "tax_calculation env ?tf (g - (default_sss g + p + c)) = Inr t"
    using tax_calculation_total by blast
  show ?thesis
    by (simp add: calculate_compliance_deductions_def Let_def assms sss_calculation_None
        p c t and_then_Inr)
qed

text \<open>
  C7.  When no uploaded SSS table is current, the SSS deduction is the built-in rule:
  135.00 at a gross pay of 3250.00, min(3250.01 * 0.045, 1125.00) = 146.25045 at 3250.01,
  1125.00 at 30000, and in general 135 up to 3250, 4.5 percent capped at 1125 up to 24750,
  and 1125 above.  The deduction is computed (the function returns) for every gross pay.
\<close>

theorem C7_default_sss_boundaries:
  assumes "get_latest_compliance_file env d ''SSS Contributions'' = None"
  shows "(\<exists>ded. calculate_compliance_deductions env d 3250 pd = Inr ded \<and> sss ded = 135)
       \<and> (\<exists>ded. calculate_compliance_deductions env d (325001 / 100) pd = Inr ded
                \<and> sss ded = min (325001 / 100 * (45 / 1000)) 1125
                \<and> sss ded = 14625045 / 100000)
       \<and> (\<exists>ded. calculate_compliance_deductions env d 30000 pd = Inr ded \<and> sss ded = 1125)
       \<and> (\<exists>ded. calculate_compliance_deductions env d g pd = Inr ded
                \<and> sss ded = (if g \<le> 3250 then 135
                              else if g \<le> 24750 then min (g * (45 / 1000)) 1125
                              else 1125))"
proof -
  have a: "default_sss 3250 = 135" by (simp add: default_sss_def)
  have b: "default_sss (325001 / 100) = min (325001 / 100 * (45 / 1000)) 1125"
    by (simp add: default_sss_def)
  have b': "default_sss (325001 / 100) = 14625045 / 100000"
    by (simp add: default_sss_def)
  have c: "default_sss 30000 = 1125" by (simp add: default_sss_def)
  show ?thesis
    using calc_sss_default [OF assms, of 3250 pd]
      calc_sss_default [OF assms, of "325001 / 100" pd]
      calc_sss_default [OF assms, of 30000 pd]
      calc_sss_default [OF assms, of g pd]
    unfolding a b c by (auto simp: b' default_sss_def)
qed

theorem C7_default_sss_boundaries_witness:
  "get_latest_compliance_file example_env example_db ''SSS Contributions'' = None
   \<and> (\<exists>ded. calculate_compliance_deductions example_env example_db 3250 (2024, 5, 1) = Inr ded
            \<and> sss ded = 135)
   \<and> (\<exists>ded. calculate_compliance_deductions example_env example_db 30000 (2024, 5, 1) = Inr ded
            \<and> sss ded = 1125)"
proof -
  have h: "get_latest_compliance_file example_env example_db ''SSS Contributions'' = None"
    by code_simp
  from C7_default_sss_boundaries [OF h, of "(2024, 5, 1)" 0] h show ?thesis
    by blast
qed

section \<open>Rounding to two decimals\<close>

lemma rhe_char:
  "(round_half_even x = \<lfloor>x\<rfloor> \<and> x - of_int \<lfloor>x\<rfloor> \<le> 1 / 2
      \<and> (x - of_int \<lfloor>x\<rfloor> = 1 / 2 \<longrightarrow> even \<lfloor>x\<rfloor>))
   \<or> (round_half_even x = \<lfloor>x\<rfloor> + 1 \<and> 1 / 2 \<le> x - of_int \<lfloor>x\<rfloor>
      \<and> (x - of_int \<lfloor>x\<rfloor> = 1 / 2 \<longrightarrow> odd \<lfloor>x\<rfloor>))"
  unfolding round_half_even_def Let_def by auto





lemma rhe_of_int: "round_half_even (of_int n) = n"
  by (simp add: round_half_even_def Let_def)

lemma rhe_mono: "x \<le> y \<Longrightarrow> round_half_even x \<le> round_half_even y"
proof -
  assume xy: "x \<le> y"
  have m: "\<lfloor>x\<rfloor> \<le> \<lfloor>y\<rfloor>" using xy by (rule floor_mono)
  show ?thesis
  proof (cases "\<lfloor>x\<rfloor> = \<lfloor>y\<rfloor>")
    case True
    with xy show ?thesis
      by (auto simp: round_half_even_def Let_def)
  next
    case False
    with m have "\<lfloor>x\<rfloor> + 1 \<le> \<lfloor>y\<rfloor>" by simp
    moreover have "round_half_even x \<le> \<lfloor>x\<rfloor> + 1" using rhe_char [of x] by auto
    moreover have "\<lfloor>y\<rfloor> \<le> round_half_even y" using rhe_char [of y] by auto
    ultimately show ?thesis by linarith
  qed
qed

lemma round2_mono: "x \<le> y \<Longrightarrow> round2 x \<le> round2 y"
proof -
  assume "x \<le> y"
  then have "round_half_even (x * 100) \<le> round_half_even (y * 100)"
    by (intro rhe_mono) simp
  then have "(of_int (round_half_even (x * 100)) :: rat) \<le> of_int (round_half_even (y * 100))"
    by simp
  then show ?thesis by (simp add: round2_def divide_right_mono)
qed

lemma round2_hundredths: "round2 (of_int n / 100) = of_int n / 100"
  by (simp add: round2_def rhe_of_int)

lemma round2_0: "round2 0 = 0"
  using round2_hundredths [of 0] by simp

lemma round2_int: "round2 (of_int n) = of_int n"
  using round2_hundredths [of "n * 100"] by simp

lemma round2_numeral: "round2 (numeral n) = numeral n"
  using round2_int [of "numeral n"] by simp

lemma round2_times_100: "round2 x * 100 = of_int (round_half_even (x * 100))"
  by (simp add: round2_def)




section \<open>The computed record\<close>

lemma calculate_payroll_form:
  assumes "calculate_payroll_for_employee env d emp pid sd ed = Inr pd"
  shows "\<exists>t a cd. compute_amounts env d emp sd ed = Inr (t, a)
           \<and> calculate_compliance_deductions env d (raw_gross_pay a) sd = Inr cd
           \<and> pd = payroll_dict emp pid t a cd"
  using assms
  by (auto simp: calculate_payroll_for_employee_def and_then_def Let_def
      split: sum.splits prod.splits)


lemma calculate_payroll_from_parts:
  assumes "compute_amounts env d emp sd ed = Inr (t, a)"
    and "calculate_compliance_deductions env d (raw_gross_pay a) sd = Inr cd"
  shows "calculate_payroll_for_employee env d emp pid sd ed = Inr (payroll_dict emp pid t a cd)"
  using assms by (simp add: calculate_payroll_for_employee_def and_then_Inr)



section \<open>The upsert\<close>

lemma find_map_same:
  assumes "\<And>x. P (f x) = P x"
  shows "find P (map f xs) = map_option f (find P xs)"
  by (induction xs) (simp_all add: assms)

lemma find_append_None: "find P xs = None \<Longrightarrow> find P (xs @ ys) = find P ys"
  by (induction xs) (simp_all split: if_splits)

lemma find_append_Some: "find P xs = Some x \<Longrightarrow> find P (xs @ ys) = Some x"
  by (induction xs) (simp_all split: if_splits)

lemma find_Some_holds: "find P xs = Some x \<Longrightarrow> P x \<and> x \<in> set xs"
  by (induction xs) (auto split: if_splits)

lemma find_None_none: "find P xs = None \<Longrightarrow> \<forall>x\<in>set xs. \<not> P x"
  by (induction xs) (auto split: if_splits)

lemma set_entry_fields_key:
  "e_payroll_period_id (set_entry_fields pd r) = e_payroll_period_id r"
  "e_employee_id (set_entry_fields pd r) = e_employee_id r"
  "e_id (set_entry_fields pd r) = e_id r"
  by (simp_all add: set_entry_fields_def)

lemma set_entry_fields_new:
  assumes "e_payroll_period_id r = payroll_period_id pd" and "e_employee_id r = employee_id pd"
  shows "set_entry_fields pd r = new_entry (e_id r) pd"
  using assms by (cases r) (simp add: set_entry_fields_def new_entry_def)

lemma set_entry_fields_idem: "set_entry_fields pd (new_entry i pd) = new_entry i pd"
  by (simp add: set_entry_fields_def new_entry_def)

lemma new_entry_key:
  "e_payroll_period_id (new_entry i pd) = payroll_period_id pd"
  "e_employee_id (new_entry i pd) = employee_id pd"
  "e_id (new_entry i pd) = i"
  by (simp_all add: new_entry_def)

lemma find_entry_key:
  assumes "find_entry d p e = Some r"
  shows "e_payroll_period_id r = p" and "e_employee_id r = e" and "r \<in> set (payroll_entries d)"
  using find_Some_holds [OF assms [unfolded find_entry_def]] by simp_all

text \<open>What the update branch does to the store.\<close>

lemma save_existing:
  assumes "find_entry d (payroll_period_id pd) (employee_id pd) = Some ex"
  shows "save_payroll_entry d pd cb =
     (d\<lparr>payroll_entries :=
          map (\<lambda>r. if e_id r = e_id ex then set_entry_fields pd r else r) (payroll_entries d),
        payroll_transaction_history := payroll_transaction_history d @
          [\<lparr>h_id = next_history_id d, h_payroll_entry_id = e_id ex,
            h_payroll_period_id = payroll_period_id pd, h_employee_id = employee_id pd,
            h_transaction_type = ''UPDATED'',
            h_previous_status = e_status ex, h_new_status = Some (status pd),
            h_previous_gross_pay = Some (float_or_zero (e_gross_pay ex)),
            h_new_gross_pay = Some (gross_pay pd),
            h_previous_net_pay = Some (float_or_zero (e_net_pay ex)),
            h_new_net_pay = Some (net_pay pd),
            h_changed_by = cb,
            h_notes = Some (Payroll_recomputed_with (total_regular_hours pd))\<rparr>],
        next_history_id := Suc (next_history_id d)\<rparr>,
      e_id ex)"
  by (simp add: save_payroll_entry_def assms log_payroll_transaction_def Let_def)

lemma save_new:
  assumes "find_entry d (payroll_period_id pd) (employee_id pd) = None"
  shows "save_payroll_entry d pd cb =
     (d\<lparr>payroll_entries := payroll_entries d @ [new_entry (next_entry_id d) pd],
        next_entry_id := Suc (next_entry_id d),
        payroll_transaction_history := payroll_transaction_history d @
          [\<lparr>h_id = next_history_id d, h_payroll_entry_id = next_entry_id d,
            h_payroll_period_id = payroll_period_id pd, h_employee_id = employee_id pd,
            h_transaction_type = ''CREATED'',
            h_previous_status = None, h_new_status = Some (status pd),
            h_previous_gross_pay = None,
            h_new_gross_pay = Some (gross_pay pd),
            h_previous_net_pay = None,
            h_new_net_pay = Some (net_pay pd),
            h_changed_by = cb,
            h_notes = Some (Initial_payroll_computation_with (total_regular_hours pd))\<rparr>],
        next_history_id := Suc (next_history_id d)\<rparr>,
      next_entry_id d)"
  by (simp add: save_payroll_entry_def assms log_payroll_transaction_def Let_def)

text \<open>After the upsert the entry of the key holds the computed values.\<close>

lemma find_entry_after_update:
  assumes "find_entry d (payroll_period_id pd) (employee_id pd) = Some ex"
  shows "find_entry (fst (save_payroll_entry d pd cb)) (payroll_period_id pd) (employee_id pd)
         = Some (new_entry (e_id ex) pd)"
proof -
  let ?f = "\<lambda>r. if e_id r = e_id ex then set_entry_fields pd r else r"
  let ?P = "\<lambda>r. e_payroll_period_id r = payroll_period_id pd \<and> e_employee_id r = employee_id pd"
  have "find ?P (map ?f (payroll_entries d)) = map_option ?f (find ?P (payroll_entries d))"
    by (rule find_map_same) (simp add: set_entry_fields_key)
  also have "\<dots> = Some (set_entry_fields pd ex)"
    using assms by (simp add: find_entry_def)
  also have "\<dots> = Some (new_entry (e_id ex) pd)"
    using find_entry_key [OF assms] by (simp add: set_entry_fields_new)
  finally show ?thesis
    by (simp add: save_existing [OF assms] find_entry_def)
qed

lemma find_entry_after_insert:
  assumes "find_entry d (payroll_period_id pd) (employee_id pd) = None"
  shows "find_entry (fst (save_payroll_entry d pd cb)) (payroll_period_id pd) (employee_id pd)
         = Some (new_entry (next_entry_id d) pd)"
  using assms
  by (simp add: save_new [OF assms] find_entry_def find_append_None new_entry_key)

lemma find_entry_after_save:
  "\<exists>i. find_entry (fst (save_payroll_entry d pd cb)) (payroll_period_id pd) (employee_id pd)
         = Some (new_entry i pd)"
proof (cases "find_entry d (payroll_period_id pd) (employee_id pd)")
  case None
  then show ?thesis using find_entry_after_insert by blast
next
  case (Some ex)
  then show ?thesis using find_entry_after_update by blast
qed




text \<open>Evaluating \<open>round2\<close> on literals.\<close>

lemma rhe_frac:
  assumes "0 < q"
  shows "round_half_even (of_int p / of_int q) =
     (if 2 * (p mod q) < q then p div q
      else if q < 2 * (p mod q) then p div q + 1
      else if even (p div q) then p div q else p div q + 1)"
proof -
  have f: "\<lfloor>(of_int p / of_int q :: rat)\<rfloor> = p div q"
    by (rule floor_divide_of_int_eq)
  have "(of_int p :: rat) = of_int (p div q) * of_int q + of_int (p mod q)"
    by (metis div_mult_mod_eq of_int_add of_int_mult)
  then have r: "(of_int p / of_int q :: rat) - of_int (p div q) = of_int (p mod q) / of_int q"
    using assms by (simp add: field_simps)
  have lt: "(of_int (p mod q) / of_int q :: rat) < 1 / 2 \<longleftrightarrow> 2 * (p mod q) < q"
  proof -
    have "(of_int (p mod q) / of_int q :: rat) < 1 / 2
          \<longleftrightarrow> (of_int (2 * (p mod q)) :: rat) < of_int q"
      using assms by (simp add: field_simps)
    then show ?thesis unfolding of_int_less_iff .
  qed
  have gt: "(1 / 2 :: rat) < of_int (p mod q) / of_int q \<longleftrightarrow> q < 2 * (p mod q)"
  proof -
    have "(1 / 2 :: rat) < of_int (p mod q) / of_int q
          \<longleftrightarrow> (of_int q :: rat) < of_int (2 * (p mod q))"
      using assms by (simp add: field_simps)
    then show ?thesis unfolding of_int_less_iff .
  qed
  show ?thesis
    unfolding round_half_even_def Let_def f r lt gt by simp
qed

lemma rhe_numeral_quot:
  "round_half_even (numeral a / numeral b) =
     (if 2 * (numeral a mod numeral b) < (numeral b :: int) then numeral a div numeral b
      else if (numeral b :: int) < 2 * (numeral a mod numeral b) then numeral a div numeral b + 1
      else if even (numeral a div numeral b :: int) then numeral a div numeral b
      else numeral a div numeral b + 1)"
  using rhe_frac [of "numeral b" "numeral a"] by simp

lemma rhe_neg_numeral_quot:
  "round_half_even (- (numeral a / numeral b)) =
     (if 2 * (- numeral a mod numeral b) < (numeral b :: int) then - numeral a div numeral b
      else if (numeral b :: int) < 2 * (- numeral a mod numeral b)
        then - numeral a div numeral b + 1
      else if even (- numeral a div numeral b :: int) then - numeral a div numeral b
      else - numeral a div numeral b + 1)"
  using rhe_frac [of "numeral b" "- numeral a"] by simp

lemma rhe_one_quot:
  "round_half_even (1 / numeral b) =
     (if 2 * (1 mod numeral b) < (numeral b :: int) then 1 div numeral b
      else if (numeral b :: int) < 2 * (1 mod numeral b) then 1 div numeral b + 1
      else if even (1 div numeral b :: int) then 1 div numeral b
      else 1 div numeral b + 1)"
  using rhe_frac [of "numeral b" 1] by simp

lemma rhe_neg_one_quot:
  "round_half_even (- (1 / numeral b)) =
     (if 2 * (- 1 mod numeral b) < (numeral b :: int) then - 1 div numeral b
      else if (numeral b :: int) < 2 * (- 1 mod numeral b) then - 1 div numeral b + 1
      else if even (- 1 div numeral b :: int) then - 1 div numeral b
      else - 1 div numeral b + 1)"
  using rhe_frac [of "numeral b" "- 1"] by simp

lemma rhe_1: "round_half_even 1 = 1" "round_half_even (- 1) = - 1"
  using rhe_of_int [of 1] rhe_of_int [of "- 1"] by simp_all

lemma rhe_numeral: "round_half_even (numeral a) = numeral a"
  using rhe_of_int [of "numeral a"] by simp

lemma rhe_neg_numeral: "round_half_even (- numeral a) = - numeral a"
  using rhe_of_int [of "- numeral a"] by simp

lemma rhe_0: "round_half_even 0 = 0"
  using rhe_of_int [of 0] by simp

lemmas round2_eval = round2_def rhe_numeral_quot rhe_neg_numeral_quot rhe_one_quot
  rhe_neg_one_quot rhe_numeral rhe_neg_numeral rhe_0 rhe_1

section \<open>Reconciliation of a computed record\<close>

lemma payroll_dict_ids:
  "employee_id (payroll_dict emp pid t a cd) = emp"
  "payroll_period_id (payroll_dict emp pid t a cd) = pid"
  "status (payroll_dict emp pid t a cd) = ''PENDING''"
  by (simp_all add: payroll_dict_def Let_def)

lemma calculate_payroll_ids:
  assumes "calculate_payroll_for_employee env d emp pid sd ed = Inr pd"
  shows "employee_id pd = emp" and "payroll_period_id pd = pid" and "status pd = ''PENDING''"
  using calculate_payroll_form [OF assms] by (auto simp: payroll_dict_ids)

lemma example_amounts_3:
  "compute_amounts example_env example_db 3 (2024, 5, 1) (2024, 5, 15) =
     Inr (\<lparr>tot_regular_hours = 726 / 100, tot_overtime_hours = 219 / 100,
           tot_night_diff_hours = 22 / 100, tot_late_minutes = 0, tot_undertime_minutes = 0,
           tot_holiday_hours = 726 / 100, tot_rest_day_hours = 726 / 100\<rparr>,
          \<lparr>raw_basic_pay = 2269839 / 5000, raw_overtime_pay = 1369407 / 8000,
           raw_night_differential_pay = 68783 / 50000, raw_holiday_pay = 2269839 / 2500,
           raw_rest_day_pay = 29507907 / 50000, raw_late_deduction = 0,
           raw_undertime_deduction = 0, raw_allowances = 0, raw_vacation_sickleave = 0,
           raw_salary_adjustment = 0, raw_incentive_pay = 0,
           raw_gross_pay = 84984523 / 40000\<rparr>)"
  by code_simp

lemma example_deductions_3:
  "calculate_compliance_deductions example_env example_db (84984523 / 40000) (2024, 5, 1)
     = Inr \<lparr>sss = 135, philhealth = 300, pagibig = 84984523 / 2000000, tax = 0\<rparr>"
  by code_simp

lemma example_payroll_3:
  "calculate_payroll_for_employee example_env example_db 3 1 (2024, 5, 1) (2024, 5, 15)
     = Inr employee3_payroll"
proof -
  let ?t = "\<lparr>tot_regular_hours = 726 / 100, tot_overtime_hours = 219 / 100,
           tot_night_diff_hours = 22 / 100, tot_late_minutes = 0, tot_undertime_minutes = 0,
           tot_holiday_hours = 726 / 100, tot_rest_day_hours = 726 / 100\<rparr>"
  let ?a = "\<lparr>raw_basic_pay = 2269839 / 5000, raw_overtime_pay = 1369407 / 8000,
           raw_night_differential_pay = 68783 / 50000, raw_holiday_pay = 2269839 / 2500,
           raw_rest_day_pay = 29507907 / 50000, raw_late_deduction = 0,
           raw_undertime_deduction = 0, raw_allowances = 0, raw_vacation_sickleave = 0,
           raw_salary_adjustment = 0, raw_incentive_pay = 0,
           raw_gross_pay = 84984523 / 40000\<rparr>"
  let ?cd = "\<lparr>sss = 135, philhealth = 300, pagibig = 84984523 / 2000000, tax = 0\<rparr>"
  have pd: "payroll_dict 3 1 ?t ?a ?cd = employee3_payroll"
    by (simp add: payroll_dict_def Let_def round2_eval employee3_payroll_def)
  have g: "calculate_compliance_deductions example_env example_db (raw_gross_pay ?a)
             (2024, 5, 1) = Inr ?cd"
    using example_deductions_3 by simp
  from calculate_payroll_from_parts [OF example_amounts_3 g, of 1] show ?thesis
    unfolding pd .
qed




section \<open>Deductions under the built-in rules\<close>

lemma philhealth_calculation_None:
  "philhealth_calculation env None g = Inr (default_philhealth g)"
  by (simp add: philhealth_calculation_def has_file_def)

lemma pagibig_calculation_None: "pagibig_calculation env None g = Inr (default_pagibig g)"
  by (simp add: pagibig_calculation_def has_file_def)

lemma tax_calculation_None: "tax_calculation env None x = Inr (default_tax x)"
  by (simp add: tax_calculation_def has_file_def)

lemma calc_all_default:
  assumes "get_latest_compliance_file env d ''SSS Contributions'' = None"
    and "get_latest_compliance_file env d ''PhilHealth Rates'' = None"
    and "get_latest_compliance_file env d ''Pag-IBIG Rates'' = None"
    and "get_latest_compliance_file env d ''BIR Tax'' = None"
  shows "calculate_compliance_deductions env d g pdate =
     Inr \<lparr>sss = default_sss g, philhealth = default_philhealth g,
          pagibig = default_pagibig g,
          tax = default_tax (g - (default_sss g + default_philhealth g + default_pagibig g))\<rparr>"
  by (simp add: calculate_compliance_deductions_def Let_def assms sss_calculation_None
      philhealth_calculation_None pagibig_calculation_None tax_calculation_None and_then_Inr)

lemma calc_zero_default:
  assumes "get_latest_compliance_file env d ''SSS Contributions'' = None"
    and "get_latest_compliance_file env d ''PhilHealth Rates'' = None"
    and "get_latest_compliance_file env d ''Pag-IBIG Rates'' = None"
    and "get_latest_compliance_file env d ''BIR Tax'' = None"
  shows "calculate_compliance_deductions env d 0 pdate =
     Inr \<lparr>sss = 135, philhealth = 300, pagibig = 0, tax = 0\<rparr>"
  unfolding calc_all_default [OF assms]
  by (simp add: default_sss_def default_philhealth_def default_pagibig_def default_tax_def)

text \<open>
  C10.  With no uploaded table current, a gross pay of zero still incurs sss = 135,
  philhealth = 300, pagibig = 0 and tax = 0.  So whenever the computation of an employee
  reaches a raw gross pay of zero (with late and undertime deductions that are not
  negative), it returns a record with zero gross pay, total deductions of at least 435 and
  a strictly negative net pay, and the upsert persists these amounts.
\<close>

theorem C10_zero_gross_minimum_deductions:
  assumes "get_latest_compliance_file env d ''SSS Contributions'' = None"
    and "get_latest_compliance_file env d ''PhilHealth Rates'' = None"
    and "get_latest_compliance_file env d ''Pag-IBIG Rates'' = None"
    and "get_latest_compliance_file env d ''BIR Tax'' = None"
  shows "calculate_compliance_deductions env d 0 pdate
           = Inr \<lparr>sss = 135, philhealth = 300, pagibig = 0, tax = 0\<rparr>
       \<and> (\<forall>t a. compute_amounts env d emp sd ed = Inr (t, a) \<and> raw_gross_pay a = 0
                  \<and> 0 \<le> raw_late_deduction a \<and> 0 \<le> raw_undertime_deduction a \<longrightarrow>
            (\<exists>pd r. calculate_payroll_for_employee env d emp pid sd ed = Inr pd
               \<and> gross_pay pd = 0 \<and> sss_contrib pd = 135 \<and> philhealth_contrib pd = 300
               \<and> pagibig_contrib pd = 0 \<and> withholding_tax pd = 0
               \<and> 435 \<le> total_deductions pd \<and> net_pay pd < 0
               \<and> find_entry (fst (save_payroll_entry d pd cb)) pid emp = Some r
               \<and> e_total_deductions r = Some (total_deductions pd)
               \<and> e_net_pay r = Some (net_pay pd)))"
proof (intro conjI allI impI)
  show "calculate_compliance_deductions env d 0 pdate
           = Inr \<lparr>sss = 135, philhealth = 300, pagibig = 0, tax = 0\<rparr>"
    by (rule calc_zero_default [OF assms])
next
  fix t a
  assume h: "compute_amounts env d emp sd ed = Inr (t, a) \<and> raw_gross_pay a = 0
             \<and> 0 \<le> raw_late_deduction a \<and> 0 \<le> raw_undertime_deduction a"
  let ?cd = "\<lparr>sss = 135, philhealth = 300, pagibig = 0, tax = 0\<rparr> :: deductions"
  let ?pd = "payroll_dict emp pid t a ?cd"
  have cd: "calculate_compliance_deductions env d (raw_gross_pay a) sd = Inr ?cd"
    using h calc_zero_default [OF assms] by simp
  have calc: "calculate_payroll_for_employee env d emp pid sd ed = Inr ?pd"
    using h cd by (intro calculate_payroll_from_parts) simp_all
  have tot: "total_deductions ?pd
             = round2 (435 + raw_late_deduction a + raw_undertime_deduction a)"
    by (simp add: payroll_dict_def Let_def)
  have "round2 435 \<le> round2 (435 + raw_late_deduction a + raw_undertime_deduction a)"
    using h by (intro round2_mono) simp
  then have t435: "435 \<le> total_deductions ?pd"
    unfolding tot by (simp add: round2_numeral)
  have net: "net_pay ?pd = round2 (- (435 + raw_late_deduction a + raw_undertime_deduction a))"
    using h by (simp add: payroll_dict_def Let_def)
  have "round2 (- (435 + raw_late_deduction a + raw_undertime_deduction a)) \<le> round2 (- 435)"
    using h by (intro round2_mono) simp
  moreover have "round2 (- 435) = - 435"
    using round2_int [of "- 435"] by simp
  ultimately have neg: "net_pay ?pd < 0" unfolding net by simp
  have fields: "gross_pay ?pd = 0" "sss_contrib ?pd = 135" "philhealth_contrib ?pd = 300"
    "pagibig_contrib ?pd = 0" "withholding_tax ?pd = 0"
    using h by (simp_all add: payroll_dict_def Let_def round2_0 round2_numeral)
  obtain i where
    "find_entry (fst (save_payroll_entry d ?pd cb)) (payroll_period_id ?pd) (employee_id ?pd)
       = Some (new_entry i ?pd)"
    using find_entry_after_save by blast
  then have st: "find_entry (fst (save_payroll_entry d ?pd cb)) pid emp
       = Some (new_entry i ?pd)"
    by (simp add: payroll_dict_ids)
  have "e_total_deductions (new_entry i ?pd) = Some (total_deductions ?pd)"
    "e_net_pay (new_entry i ?pd) = Some (net_pay ?pd)"
    by (simp_all add: new_entry_def)
  with calc t435 neg fields st
  show "\<exists>pd r. calculate_payroll_for_employee env d emp pid sd ed = Inr pd
               \<and> gross_pay pd = 0 \<and> sss_contrib pd = 135 \<and> philhealth_contrib pd = 300
               \<and> pagibig_contrib pd = 0 \<and> withholding_tax pd = 0
               \<and> 435 \<le> total_deductions pd \<and> net_pay pd < 0
               \<and> find_entry (fst (save_payroll_entry d pd cb)) pid emp = Some r
               \<and> e_total_deductions r = Some (total_deductions pd)
               \<and> e_net_pay r = Some (net_pay pd)"
    by blast
qed

lemma example_db_no_tables:
  "get_latest_compliance_file example_env example_db ''SSS Contributions'' = None"
  "get_latest_compliance_file example_env example_db ''PhilHealth Rates'' = None"
  "get_latest_compliance_file example_env example_db ''Pag-IBIG Rates'' = None"
  "get_latest_compliance_file example_env example_db ''BIR Tax'' = None"
  by code_simp+

lemma example_amounts_4:
  "compute_amounts example_env example_db 4 (2024, 5, 1) (2024, 5, 15) =
     Inr (\<lparr>tot_regular_hours = 8, tot_overtime_hours = 1,
           tot_night_diff_hours = 0, tot_late_minutes = 30, tot_undertime_minutes = 10,
           tot_holiday_hours = 0, tot_rest_day_hours = 0\<rparr>,
          \<lparr>raw_basic_pay = 0, raw_overtime_pay = 0,
           raw_night_differential_pay = 0, raw_holiday_pay = 0,
           raw_rest_day_pay = 0, raw_late_deduction = 0,
           raw_undertime_deduction = 0, raw_allowances = 0, raw_vacation_sickleave = 0,
           raw_salary_adjustment = 0, raw_incentive_pay = 0,
           raw_gross_pay = 0\<rparr>)"
  by code_simp

theorem C10_zero_gross_minimum_deductions_witness:
  "get_latest_compliance_file example_env example_db ''SSS Contributions'' = None
   \<and> get_latest_compliance_file example_env example_db ''PhilHealth Rates'' = None
   \<and> get_latest_compliance_file example_env example_db ''Pag-IBIG Rates'' = None
   \<and> get_latest_compliance_file example_env example_db ''BIR Tax'' = None
   \<and> (\<exists>t a. compute_amounts example_env example_db 4 (2024, 5, 1) (2024, 5, 15) = Inr (t, a)
          \<and> raw_gross_pay a = 0 \<and> 0 \<le> raw_late_deduction a \<and> 0 \<le> raw_undertime_deduction a)
   \<and> (\<exists>pd r. calculate_payroll_for_employee example_env example_db 4 1 (2024, 5, 1)
                 (2024, 5, 15) = Inr pd
          \<and> gross_pay pd = 0 \<and> 435 \<le> total_deductions pd \<and> net_pay pd < 0
          \<and> find_entry (fst (save_payroll_entry example_db pd None)) 1 4 = Some r
          \<and> e_net_pay r = Some (net_pay pd))"
proof -
  note n = example_db_no_tables
  let ?a = "\<lparr>raw_basic_pay = 0, raw_overtime_pay = 0,
           raw_night_differential_pay = 0, raw_holiday_pay = 0,
           raw_rest_day_pay = 0, raw_late_deduction = 0,
           raw_undertime_deduction = 0, raw_allowances = 0, raw_vacation_sickleave = 0,
           raw_salary_adjustment = 0, raw_incentive_pay = 0,
           raw_gross_pay = 0\<rparr> :: amounts"
  have a: "raw_gross_pay ?a = 0 \<and> 0 \<le> raw_late_deduction ?a \<and> 0 \<le> raw_undertime_deduction ?a"
    by simp
  from C10_zero_gross_minimum_deductions [OF n, of "(2024, 5, 1)" 4 "(2024, 5, 1)"
      "(2024, 5, 15)" 1 None] example_amounts_4 a
  have "\<exists>pd r. calculate_payroll_for_employee example_env example_db 4 1 (2024, 5, 1)
                 (2024, 5, 15) = Inr pd
          \<and> gross_pay pd = 0 \<and> 435 \<le> total_deductions pd \<and> net_pay pd < 0
          \<and> find_entry (fst (save_payroll_entry example_db pd None)) 1 4 = Some r
          \<and> e_net_pay r = Some (net_pay pd)"
    by blast
  with n example_amounts_4 a show ?thesis by blast
qed

section \<open>Withholding tax\<close>

lemma tax_lookup_first_match:
  assumes "find (\<lambda>b. tax_from b \<le> x \<and> lt_bound x (tax_to b)) bs = Some b"
  shows "tax_lookup bs x cur = tax_base_tax b + (x - tax_from b) * tax_rate b"
  using assms by (induction bs) (auto simp: Let_def split: if_splits)

lemma tax_lookup_no_match:
  assumes "find (\<lambda>b. tax_from b \<le> x \<and> lt_bound x (tax_to b)) bs = None"
  shows "tax_lookup bs x cur = cur"
  using assms by (induction bs) (auto simp: Let_def split: if_splits)

lemma tax_calculation_uploaded:
  assumes "file_path row \<noteq> []"
    and "parse_compliance_file env ''BIR Tax'' (file_path row) = Inr (Some (Tax_data p))"
    and "brackets p \<noteq> []"
  shows "tax_calculation env (Some row) x = Inr (tax_lookup (brackets p) x 0)"
  using assms
  by (simp add: tax_calculation_def has_file_def path_of_def and_then_Inr has_brackets_def)

lemma calc_tax_part:
  "\<exists>ded. calculate_compliance_deductions env d g pdate = Inr ded
     \<and> tax_calculation env (get_latest_compliance_file env d ''BIR Tax'')
         (g - (sss ded + philhealth ded + pagibig ded)) = Inr (tax ded)"
proof -
  let ?sf = "get_latest_compliance_file env d ''SSS Contributions''"
  let ?pf = "get_latest_compliance_file env d ''PhilHealth Rates''"
  let ?gf = "get_latest_compliance_file env d ''Pag-IBIG Rates''"
  let ?tf = "get_latest_compliance_file env d ''BIR Tax''"
  obtain s where s: "sss_calculation env ?sf g = Inr s"
    using sss_calculation_total by blast
  obtain p where p: "philhealth_calculation env ?pf g = Inr p"
    using philhealth_calculation_total by blast
  obtain c where c: "pagibig_calculation env ?gf g = Inr c"
    using pagibig_calculation_total by blast
  obtain t where t: "tax_calculation env ?tf (g - (s + p + c)) = Inr t"
    using tax_calculation_total by blast
  show ?thesis
    by (simp add: calculate_compliance_deductions_def Let_def s p c t and_then_Inr)
qed

text \<open>
  C6.  The taxable income is the gross pay minus (sss + philhealth + pagibig).  With no
  uploaded tax table the tax is the built-in rule, which gives 0.00 at 20833, 2499.80 at
  33332 and 10833.50 at 66666.  With an uploaded table that parses to brackets, the first
  bracket with from <= taxable < to is selected and the tax is
  base_tax + (taxable - from) * rate.  In both cases the function returns.
\<close>

theorem C6_withholding_tax:
  "tax_calculation env None 20833 = Inr 0
   \<and> tax_calculation env None 33332 = Inr ((33332 - 20833) * (20 / 100))
   \<and> tax_calculation env None 33332 = Inr (249980 / 100)
   \<and> tax_calculation env None 66666 = Inr (2500 + (66666 - 33332) * (25 / 100))
   \<and> tax_calculation env None 66666 = Inr (1083350 / 100)
   \<and> (\<exists>ded. calculate_compliance_deductions env d g pdate = Inr ded
        \<and> (get_latest_compliance_file env d ''BIR Tax'' = None \<longrightarrow>
             tax ded = default_tax (g - (sss ded + philhealth ded + pagibig ded)))
        \<and> (\<forall>row p b. get_latest_compliance_file env d ''BIR Tax'' = Some row
               \<and> file_path row \<noteq> []
               \<and> parse_compliance_file env ''BIR Tax'' (file_path row) = Inr (Some (Tax_data p))
               \<and> find (\<lambda>b. tax_from b \<le> g - (sss ded + philhealth ded + pagibig ded)
                            \<and> lt_bound (g - (sss ded + philhealth ded + pagibig ded)) (tax_to b))
                    (brackets p) = Some b
               \<longrightarrow> tax ded = tax_base_tax b
                    + (g - (sss ded + philhealth ded + pagibig ded) - tax_from b) * tax_rate b))"
proof -
  have pts: "tax_calculation env None 20833 = Inr 0"
    "tax_calculation env None 33332 = Inr ((33332 - 20833) * (20 / 100))"
    "tax_calculation env None 33332 = Inr (249980 / 100)"
    "tax_calculation env None 66666 = Inr (2500 + (66666 - 33332) * (25 / 100))"
    "tax_calculation env None 66666 = Inr (1083350 / 100)"
    by (simp_all add: tax_calculation_None default_tax_def)
  obtain ded where ded: "calculate_compliance_deductions env d g pdate = Inr ded"
    and tx: "tax_calculation env (get_latest_compliance_file env d ''BIR Tax'')
         (g - (sss ded + philhealth ded + pagibig ded)) = Inr (tax ded)"
    using calc_tax_part by blast
  let ?x = "g - (sss ded + philhealth ded + pagibig ded)"
  have none: "get_latest_compliance_file env d ''BIR Tax'' = None \<longrightarrow> tax ded = default_tax ?x"
    using tx by (auto simp: tax_calculation_None)
  have up: "\<forall>row p b. get_latest_compliance_file env d ''BIR Tax'' = Some row
               \<and> file_path row \<noteq> []
               \<and> parse_compliance_file env ''BIR Tax'' (file_path row) = Inr (Some (Tax_data p))
               \<and> find (\<lambda>b. tax_from b \<le> ?x \<and> lt_bound ?x (tax_to b)) (brackets p) = Some b
               \<longrightarrow> tax ded = tax_base_tax b + (?x - tax_from b) * tax_rate b"
  proof (intro allI impI, elim conjE)
    fix row p b
    assume r: "get_latest_compliance_file env d ''BIR Tax'' = Some row"
      and f: "file_path row \<noteq> []"
      and ps: "parse_compliance_file env ''BIR Tax'' (file_path row) = Inr (Some (Tax_data p))"
      and m: "find (\<lambda>b. tax_from b \<le> ?x \<and> lt_bound ?x (tax_to b)) (brackets p) = Some b"
    from m have ne: "brackets p \<noteq> []" by auto
    have "tax_calculation env (Some row) ?x = Inr (tax_lookup (brackets p) ?x 0)"
      by (rule tax_calculation_uploaded [OF f ps ne])
    with tx r have "tax ded = tax_lookup (brackets p) ?x 0" by simp
    then show "tax ded = tax_base_tax b + (?x - tax_from b) * tax_rate b"
      by (simp add: tax_lookup_first_match [OF m])
  qed
  have "\<exists>ded. calculate_compliance_deductions env d g pdate = Inr ded
        \<and> (get_latest_compliance_file env d ''BIR Tax'' = None \<longrightarrow>
             tax ded = default_tax (g - (sss ded + philhealth ded + pagibig ded)))
        \<and> (\<forall>row p b. get_latest_compliance_file env d ''BIR Tax'' = Some row
               \<and> file_path row \<noteq> []
               \<and> parse_compliance_file env ''BIR Tax'' (file_path row) = Inr (Some (Tax_data p))
               \<and> find (\<lambda>b. tax_from b \<le> g - (sss ded + philhealth ded + pagibig ded)
                            \<and> lt_bound (g - (sss ded + philhealth ded + pagibig ded)) (tax_to b))
                    (brackets p) = Some b
               \<longrightarrow> tax ded = tax_base_tax b
                    + (g - (sss ded + philhealth ded + pagibig ded) - tax_from b) * tax_rate b)"
    by (rule exI [of _ ded]) (intro conjI ded none up)
  then show ?thesis by (intro conjI) (rule pts | assumption)+
qed

lemma rated_db_tax_row:
  "get_latest_compliance_file example_env rated_db ''BIR Tax'' =
     Some \<lparr>ct_id = 1, ct_type = ''BIR Tax'', effective_from = (2024, 1, 1), version = 1,
           file_path = ''TAX_20240101_v1.csv''\<rparr>"
  by code_simp

lemma example_tax_file:
  "parse_compliance_file example_env ''BIR Tax'' ''TAX_20240101_v1.csv'' =
     Inr (Some (Tax_data
       \<lparr>brackets = [\<lparr>tax_from = 0, tax_to = Finite 20833, tax_base_tax = 0, tax_rate = 0\<rparr>,
                    \<lparr>tax_from = 20833, tax_to = Finite 33332, tax_base_tax = 0,
                     tax_rate = 20 / 100\<rparr>],
        max_contribution = None, ptype = Some ''TAX''\<rparr>))"
  by code_simp

lemma rated_db_deductions:
  "calculate_compliance_deductions example_env rated_db 30000 (2024, 5, 1)
   = Inr \<lparr>sss = 200, philhealth = 900, pagibig = 100, tax = 15934 / 10\<rparr>"
  by code_simp

theorem C6_withholding_tax_witness:
  "(get_latest_compliance_file example_env example_db ''BIR Tax'' = None
    \<and> (\<exists>ded. calculate_compliance_deductions example_env example_db 30000 (2024, 5, 1) = Inr ded
          \<and> tax ded = default_tax (30000 - (sss ded + philhealth ded + pagibig ded))))
   \<and> (calculate_compliance_deductions example_env rated_db 30000 (2024, 5, 1)
        = Inr \<lparr>sss = 200, philhealth = 900, pagibig = 100, tax = 15934 / 10\<rparr>
      \<and> get_latest_compliance_file example_env rated_db ''BIR Tax'' =
          Some \<lparr>ct_id = 1, ct_type = ''BIR Tax'', effective_from = (2024, 1, 1), version = 1,
                file_path = ''TAX_20240101_v1.csv''\<rparr>
      \<and> (15934 / 10 :: rat) = 0 + (30000 - (200 + 900 + 100) - 20833) * (20 / 100))"
proof -
  let ?row = "\<lparr>ct_id = 1, ct_type = ''BIR Tax'', effective_from = (2024, 1, 1), version = 1,
                file_path = ''TAX_20240101_v1.csv''\<rparr>"
  let ?b = "\<lparr>tax_from = 20833, tax_to = Finite 33332, tax_base_tax = 0,
                     tax_rate = 20 / 100\<rparr>"
  let ?p = "\<lparr>brackets = [\<lparr>tax_from = 0, tax_to = Finite 20833, tax_base_tax = 0, tax_rate = 0\<rparr>,
                    ?b],
        max_contribution = None, ptype = Some ''TAX''\<rparr>"
  have a: "\<exists>ded. calculate_compliance_deductions example_env example_db 30000 (2024, 5, 1) = Inr ded
          \<and> tax ded = default_tax (30000 - (sss ded + philhealth ded + pagibig ded))"
    using C6_withholding_tax [of example_env example_db 30000 "(2024, 5, 1)"]
      example_db_no_tables(4) by blast
  from C6_withholding_tax [of example_env rated_db 30000 "(2024, 5, 1)"]
  obtain ded where ded: "calculate_compliance_deductions example_env rated_db 30000 (2024, 5, 1)
      = Inr ded"
    and up: "\<forall>row p b. get_latest_compliance_file example_env rated_db ''BIR Tax'' = Some row
               \<and> file_path row \<noteq> []
               \<and> parse_compliance_file example_env ''BIR Tax'' (file_path row)
                   = Inr (Some (Tax_data p))
               \<and> find (\<lambda>b. tax_from b \<le> 30000 - (sss ded + philhealth ded + pagibig ded)
                            \<and> lt_bound (30000 - (sss ded + philhealth ded + pagibig ded))
                                (tax_to b))
                    (brackets p) = Some b
               \<longrightarrow> tax ded = tax_base_tax b
                    + (30000 - (sss ded + philhealth ded + pagibig ded) - tax_from b)
                      * tax_rate b"
    by blast
  from ded rated_db_deductions
  have dv: "ded = \<lparr>sss = 200, philhealth = 900, pagibig = 100, tax = 15934 / 10\<rparr>" by simp
  have f: "file_path ?row \<noteq> []" by simp
  have ps: "parse_compliance_file example_env ''BIR Tax'' (file_path ?row)
      = Inr (Some (Tax_data ?p))"
    using example_tax_file by simp
  have m: "find (\<lambda>b. tax_from b \<le> 30000 - (sss ded + philhealth ded + pagibig ded)
                            \<and> lt_bound (30000 - (sss ded + philhealth ded + pagibig ded))
                                (tax_to b))
                    (brackets ?p) = Some ?b"
    unfolding dv by (simp add: lt_bound_def)
  from up rated_db_tax_row f ps m
  have "tax ded = tax_base_tax ?b
                    + (30000 - (sss ded + philhealth ded + pagibig ded) - tax_from ?b)
                      * tax_rate ?b"
    by blast
  then have "(15934 / 10 :: rat) = 0 + (30000 - (200 + 900 + 100) - 20833) * (20 / 100)"
    unfolding dv by simp
  then show ?thesis
    by (intro conjI) (rule a example_db_no_tables(4) rated_db_deductions rated_db_tax_row
        | assumption)+
qed

section \<open>Upsert semantics\<close>

lemma float_or_zero_eq: "float_or_zero v = (case v of None \<Rightarrow> 0 | Some x \<Rightarrow> x)"
  by (simp add: float_or_zero_def split: option.splits)

lemma entries_after_update:
  assumes "find_entry d (payroll_period_id pd) (employee_id pd) = Some ex"
  shows "payroll_entries (fst (save_payroll_entry d pd cb)) =
     map (\<lambda>r. if e_id r = e_id ex then set_entry_fields pd r else r) (payroll_entries d)"
  by (simp add: save_existing [OF assms])

lemma save_keeps_unique_keys:
  assumes "unique_keys d"
  shows "unique_keys (fst (save_payroll_entry d pd cb))"
proof (cases "find_entry d (payroll_period_id pd) (employee_id pd)")
  case None
  let ?k = "\<lambda>r. (e_payroll_period_id r, e_employee_id r)"
  from None have "\<forall>r\<in>set (payroll_entries d).
      \<not> (e_payroll_period_id r = payroll_period_id pd \<and> e_employee_id r = employee_id pd)"
    unfolding find_entry_def by (rule find_None_none)
  then have "(payroll_period_id pd, employee_id pd) \<notin> ?k ` set (payroll_entries d)"
    by auto
  with assms show ?thesis
    by (simp add: save_new [OF None] unique_keys_def new_entry_key)
next
  case (Some ex)
  let ?f = "\<lambda>r. if e_id r = e_id ex then set_entry_fields pd r else r"
  have "map (\<lambda>r. (e_payroll_period_id r, e_employee_id r)) (map ?f (payroll_entries d))
        = map (\<lambda>r. (e_payroll_period_id r, e_employee_id r)) (payroll_entries d)"
    by (simp add: set_entry_fields_key)
  with assms show ?thesis
    by (simp add: entries_after_update [OF Some] unique_keys_def del: map_map)
qed

text \<open>
  C4.  For a computed record: if an entry of its (period, employee) exists, the upsert
  returns that entry's id, overwrites every column of the entry with the computed values
  (the entry becomes the row an insert would have written, under its old id) and appends
  one UPDATED history record carrying the entry's previous status, gross pay and net pay
  (a NULL amount is recorded as 0.0); if none exists, it appends a new row with status
  PENDING and one CREATED history record without previous values.  In both cases a store
  with at most one entry per (period, employee) stays so.
\<close>

theorem C4_upsert_semantics:
  assumes "calculate_payroll_for_employee env d0 emp pid sd ed = Inr pd"
  shows "(\<forall>ex. find_entry d pid emp = Some ex \<longrightarrow>
            snd (save_payroll_entry d pd cb) = e_id ex
          \<and> find_entry (fst (save_payroll_entry d pd cb)) pid emp
              = Some (new_entry (e_id ex) pd)
          \<and> length (payroll_entries (fst (save_payroll_entry d pd cb)))
              = length (payroll_entries d)
          \<and> payroll_transaction_history (fst (save_payroll_entry d pd cb))
              = payroll_transaction_history d @
                [\<lparr>h_id = next_history_id d, h_payroll_entry_id = e_id ex,
                  h_payroll_period_id = pid, h_employee_id = emp,
                  h_transaction_type = ''UPDATED'',
                  h_previous_status = e_status ex, h_new_status = Some ''PENDING'',
                  h_previous_gross_pay
                    = Some (case e_gross_pay ex of None \<Rightarrow> 0 | Some x \<Rightarrow> x),
                  h_new_gross_pay = Some (gross_pay pd),
                  h_previous_net_pay = Some (case e_net_pay ex of None \<Rightarrow> 0 | Some x \<Rightarrow> x),
                  h_new_net_pay = Some (net_pay pd),
                  h_changed_by = cb,
                  h_notes = Some (Payroll_recomputed_with (total_regular_hours pd))\<rparr>])
       \<and> (find_entry d pid emp = None \<longrightarrow>
            snd (save_payroll_entry d pd cb) = next_entry_id d
          \<and> payroll_entries (fst (save_payroll_entry d pd cb))
              = payroll_entries d @ [new_entry (next_entry_id d) pd]
          \<and> e_status (new_entry (next_entry_id d) pd) = Some ''PENDING''
          \<and> payroll_transaction_history (fst (save_payroll_entry d pd cb))
              = payroll_transaction_history d @
                [\<lparr>h_id = next_history_id d, h_payroll_entry_id = next_entry_id d,
                  h_payroll_period_id = pid, h_employee_id = emp,
                  h_transaction_type = ''CREATED'',
                  h_previous_status = None, h_new_status = Some ''PENDING'',
                  h_previous_gross_pay = None, h_new_gross_pay = Some (gross_pay pd),
                  h_previous_net_pay = None, h_new_net_pay = Some (net_pay pd),
                  h_changed_by = cb,
                  h_notes = Some (Initial_payroll_computation_with (total_regular_hours pd))\<rparr>])
       \<and> (unique_keys d \<longrightarrow> unique_keys (fst (save_payroll_entry d pd cb)))"
proof -
  note ids = calculate_payroll_ids [OF assms]
  have upd: "\<forall>ex. find_entry d pid emp = Some ex \<longrightarrow>
            snd (save_payroll_entry d pd cb) = e_id ex
          \<and> find_entry (fst (save_payroll_entry d pd cb)) pid emp
              = Some (new_entry (e_id ex) pd)
          \<and> length (payroll_entries (fst (save_payroll_entry d pd cb)))
              = length (payroll_entries d)
          \<and> payroll_transaction_history (fst (save_payroll_entry d pd cb))
              = payroll_transaction_history d @
                [\<lparr>h_id = next_history_id d, h_payroll_entry_id = e_id ex,
                  h_payroll_period_id = pid, h_employee_id = emp,
                  h_transaction_type = ''UPDATED'',
                  h_previous_status = e_status ex, h_new_status = Some ''PENDING'',
                  h_previous_gross_pay
                    = Some (case e_gross_pay ex of None \<Rightarrow> 0 | Some x \<Rightarrow> x),
                  h_new_gross_pay = Some (gross_pay pd),
                  h_previous_net_pay = Some (case e_net_pay ex of None \<Rightarrow> 0 | Some x \<Rightarrow> x),
                  h_new_net_pay = Some (net_pay pd),
                  h_changed_by = cb,
                  h_notes = Some (Payroll_recomputed_with (total_regular_hours pd))\<rparr>]"
  proof (intro allI impI)
    fix ex
    assume "find_entry d pid emp = Some ex"
    then have ex: "find_entry d (payroll_period_id pd) (employee_id pd) = Some ex"
      by (simp add: ids)
    have 1: "snd (save_payroll_entry d pd cb) = e_id ex"
      by (simp add: save_existing [OF ex])
    have 2: "find_entry (fst (save_payroll_entry d pd cb)) pid emp
              = Some (new_entry (e_id ex) pd)"
      using find_entry_after_update [OF ex, of cb] by (simp add: ids)
    have 3: "length (payroll_entries (fst (save_payroll_entry d pd cb)))
              = length (payroll_entries d)"
      by (simp add: entries_after_update [OF ex])
    have 4: "payroll_transaction_history (fst (save_payroll_entry d pd cb))
              = payroll_transaction_history d @
                [\<lparr>h_id = next_history_id d, h_payroll_entry_id = e_id ex,
                  h_payroll_period_id = pid, h_employee_id = emp,
                  h_transaction_type = ''UPDATED'',
                  h_previous_status = e_status ex, h_new_status = Some ''PENDING'',
                  h_previous_gross_pay
                    = Some (case e_gross_pay ex of None \<Rightarrow> 0 | Some x \<Rightarrow> x),
                  h_new_gross_pay = Some (gross_pay pd),
                  h_previous_net_pay = Some (case e_net_pay ex of None \<Rightarrow> 0 | Some x \<Rightarrow> x),
                  h_new_net_pay = Some (net_pay pd),
                  h_changed_by = cb,
                  h_notes = Some (Payroll_recomputed_with (total_regular_hours pd))\<rparr>]"
      by (simp add: save_existing [OF ex] ids float_or_zero_eq)
    from 1 2 3 4 show "snd (save_payroll_entry d pd cb) = e_id ex
          \<and> find_entry (fst (save_payroll_entry d pd cb)) pid emp
              = Some (new_entry (e_id ex) pd)
          \<and> length (payroll_entries (fst (save_payroll_entry d pd cb)))
              = length (payroll_entries d)
          \<and> payroll_transaction_history (fst (save_payroll_entry d pd cb))
              = payroll_transaction_history d @
                [\<lparr>h_id = next_history_id d, h_payroll_entry_id = e_id ex,
                  h_payroll_period_id = pid, h_employee_id = emp,
                  h_transaction_type = ''UPDATED'',
                  h_previous_status = e_status ex, h_new_status = Some ''PENDING'',
                  h_previous_gross_pay
                    = Some (case e_gross_pay ex of None \<Rightarrow> 0 | Some x \<Rightarrow> x),
                  h_new_gross_pay = Some (gross_pay pd),
                  h_previous_net_pay = Some (case e_net_pay ex of None \<Rightarrow> 0 | Some x \<Rightarrow> x),
                  h_new_net_pay = Some (net_pay pd),
                  h_changed_by = cb,
                  h_notes = Some (Payroll_recomputed_with (total_regular_hours pd))\<rparr>]"
      by (intro conjI)
  qed
  have ins: "find_entry d pid emp = None \<longrightarrow>
            snd (save_payroll_entry d pd cb) = next_entry_id d
          \<and> payroll_entries (fst (save_payroll_entry d pd cb))
              = payroll_entries d @ [new_entry (next_entry_id d) pd]
          \<and> e_status (new_entry (next_entry_id d) pd) = Some ''PENDING''
          \<and> payroll_transaction_history (fst (save_payroll_entry d pd cb))
              = payroll_transaction_history d @
                [\<lparr>h_id = next_history_id d, h_payroll_entry_id = next_entry_id d,
                  h_payroll_period_id = pid, h_employee_id = emp,
                  h_transaction_type = ''CREATED'',
                  h_previous_status = None, h_new_status = Some ''PENDING'',
                  h_previous_gross_pay = None, h_new_gross_pay = Some (gross_pay pd),
                  h_previous_net_pay = None, h_new_net_pay = Some (net_pay pd),
                  h_changed_by = cb,
                  h_notes = Some (Initial_payroll_computation_with (total_regular_hours pd))\<rparr>]"
  proof
    assume "find_entry d pid emp = None"
    then have n: "find_entry d (payroll_period_id pd) (employee_id pd) = None"
      by (simp add: ids)
    show "snd (save_payroll_entry d pd cb) = next_entry_id d
          \<and> payroll_entries (fst (save_payroll_entry d pd cb))
              = payroll_entries d @ [new_entry (next_entry_id d) pd]
          \<and> e_status (new_entry (next_entry_id d) pd) = Some ''PENDING''
          \<and> payroll_transaction_history (fst (save_payroll_entry d pd cb))
              = payroll_transaction_history d @
                [\<lparr>h_id = next_history_id d, h_payroll_entry_id = next_entry_id d,
                  h_payroll_period_id = pid, h_employee_id = emp,
                  h_transaction_type = ''CREATED'',
                  h_previous_status = None, h_new_status = Some ''PENDING'',
                  h_previous_gross_pay = None, h_new_gross_pay = Some (gross_pay pd),
                  h_previous_net_pay = None, h_new_net_pay = Some (net_pay pd),
                  h_changed_by = cb,
                  h_notes = Some (Initial_payroll_computation_with (total_regular_hours pd))\<rparr>]"
      by (simp add: save_new [OF n] ids new_entry_def)
  qed
  have uniq: "unique_keys d \<longrightarrow> unique_keys (fst (save_payroll_entry d pd cb))"
    using save_keeps_unique_keys by blast
  from upd ins uniq show ?thesis by (intro conjI)
qed


lemma example_db_entries:
  "payroll_entries example_db = []" "next_entry_id example_db = 1"
  "payroll_transaction_history example_db = []" "next_history_id example_db = 1"
  by (simp_all add: example_db_def)

lemma employee3_ids:
  "payroll_period_id employee3_payroll = 1" "employee_id employee3_payroll = 3"
  by (simp_all add: employee3_payroll_def)

theorem C4_upsert_semantics_witness:
  "find_entry example_db 1 3 = None
   \<and> payroll_entries (fst (save_payroll_entry example_db employee3_payroll None))
       = [new_entry 1 employee3_payroll]
   \<and> e_status (new_entry 1 employee3_payroll) = Some ''PENDING''
   \<and> map h_transaction_type
        (payroll_transaction_history (fst (save_payroll_entry example_db employee3_payroll None)))
       = [''CREATED'']
   \<and> find_entry (fst (save_payroll_entry example_db employee3_payroll None)) 1 3
       = Some (new_entry 1 employee3_payroll)
   \<and> find_entry (fst (save_payroll_entry
                        (fst (save_payroll_entry example_db employee3_payroll None))
                        employee3_payroll None)) 1 3
       = Some (new_entry 1 employee3_payroll)
   \<and> map h_transaction_type
        (payroll_transaction_history
           (fst (save_payroll_entry
                   (fst (save_payroll_entry example_db employee3_payroll None))
                   employee3_payroll None)))
       = [''CREATED'', ''UPDATED'']
   \<and> unique_keys example_db
   \<and> unique_keys (fst (save_payroll_entry example_db employee3_payroll None))"
proof -
  let ?pd = employee3_payroll
  let ?d1 = "fst (save_payroll_entry example_db ?pd None)"
  let ?d2 = "fst (save_payroll_entry ?d1 ?pd None)"
  note c4 = C4_upsert_semantics [OF example_payroll_3]
  have n: "find_entry example_db 1 3 = None"
    by (simp add: find_entry_def example_db_entries)
  have u0: "unique_keys example_db"
    by (simp add: unique_keys_def example_db_entries)
  from c4 [of example_db None] n u0
  have e1: "payroll_entries ?d1 = payroll_entries example_db @ [new_entry (next_entry_id example_db) ?pd]"
    and s1: "e_status (new_entry (next_entry_id example_db) ?pd) = Some ''PENDING''"
    and h1: "map h_transaction_type (payroll_transaction_history ?d1) = [''CREATED'']"
    and u1: "unique_keys ?d1"
    by (simp_all add: example_db_entries)
  have f1: "find_entry ?d1 1 3 = Some (new_entry 1 ?pd)"
    by (simp add: find_entry_def e1 example_db_entries new_entry_key employee3_ids)
  from c4 [of ?d1 None] f1
  have f2: "find_entry ?d2 1 3 = Some (new_entry 1 ?pd)"
    and h2: "map h_transaction_type (payroll_transaction_history ?d2) = [''CREATED'', ''UPDATED'']"
    by (simp_all add: new_entry_key h1)
  from n e1 s1 h1 f1 f2 h2 u0 u1 show ?thesis
    by (simp add: example_db_entries)
qed

section \<open>Recomputation\<close>








section \<open>The period loop\<close>











section \<open>A zero hourly rate\<close>










end
